theory Spec2Isabelle
  imports Main "HOL-Library.Multiset"
begin

section \<open>JavaScript values\<close>

text \<open>
  The library is JavaScript: messages are dynamically typed objects, and the code
  branches on truthiness, on \<^verbatim>\<open>typeof\<close> and on the \<^verbatim>\<open>in\<close> operator. Values
  are modelled by one datatype. Numbers are the integers (no claim depends on
  fractions), \<open>JError name message\<close> is an \<^verbatim>\<open>Error\<close> object, \<open>JPort n\<close> is the
  host's \<open>n\<close>-th \<^verbatim>\<open>MessagePort\<close>.
\<close>

datatype jsval =
    JUndefined
  | JNull
  | JBool bool
  | JNum int
  | JStr string
  | JArr "jsval list"
  | JObj "(string \<times> jsval) list"
  | JError string string
  | JPort nat
  | JEvent bool jsval "jsval list"

text \<open>
  \<open>JEvent trusted data ports\<close> is a \<^verbatim>\<open>MessageEvent\<close>: \<open>trusted\<close> tells an event the host
  dispatched from one that a script built with \<^verbatim>\<open>new MessageEvent\<close>.

  What is thrown is an \<^verbatim>\<open>Error\<close> object, given by its name and its message. (JavaScript
  can throw any value; the library and the host throw \<^verbatim>\<open>Error\<close>s, and the handlers and
  listeners of the model are restricted to them.)
\<close>

type_synonym js_error = "string \<times> string"

definition TypeError :: "string \<Rightarrow> js_error" where
  "TypeError msg = (''TypeError'', msg)"

definition Error :: "string \<Rightarrow> js_error" where
  "Error msg = (''Error'', msg)"

definition error_object :: "js_error \<Rightarrow> jsval" where
  "error_object e = JError (fst e) (snd e)"

text \<open>
  A call either returns a value or throws; the state it leaves behind is kept in both
  cases, since what was assigned before a \<^verbatim>\<open>throw\<close> stays assigned.
\<close>

datatype ('a, 's) completion = Return 'a 's | Throw js_error 's

fun state_of :: "('a, 's) completion \<Rightarrow> 's" where
  "state_of (Return _ s) = s"
| "state_of (Throw _ s) = s"

fun returns :: "('a, 's) completion \<Rightarrow> bool" where
  "returns (Return _ _) = True"
| "returns (Throw _ _) = False"

text \<open>\<^verbatim>\<open>if (v)\<close>, \<^verbatim>\<open>!v\<close>, \<^verbatim>\<open>a || b\<close>: the truthiness of a value.\<close>

fun truthy :: "jsval \<Rightarrow> bool" where
  "truthy JUndefined = False"
| "truthy JNull = False"
| "truthy (JBool b) = b"
| "truthy (JNum n) = (n \<noteq> 0)"
| "truthy (JStr s) = (s \<noteq> [])"
| "truthy _ = True"

text \<open>\<^verbatim>\<open>typeof v === 'object'\<close>; it holds of \<^verbatim>\<open>null\<close> too.\<close>

fun typeof_object :: "jsval \<Rightarrow> bool" where
  "typeof_object JUndefined = False"
| "typeof_object (JBool _) = False"
| "typeof_object (JNum _) = False"
| "typeof_object (JStr _) = False"
| "typeof_object _ = True"

text \<open>
  \<^verbatim>\<open>a === b\<close>. Primitive values are compared by value; two objects are equal only when
  they are the same object, which the tree of a value does not record, so objects
  compare unequal (the identifiers the library compares are strings or \<^verbatim>\<open>null\<close>).
\<close>

fun strict_eq :: "jsval \<Rightarrow> jsval \<Rightarrow> bool" where
  "strict_eq JUndefined b = (b = JUndefined)"
| "strict_eq JNull b = (b = JNull)"
| "strict_eq (JBool x) b = (b = JBool x)"
| "strict_eq (JNum x) b = (b = JNum x)"
| "strict_eq (JStr x) b = (b = JStr x)"
| "strict_eq _ _ = False"

text \<open>The decimal numeral of a number, as string concatenation and property keys use it.\<close>

definition digit_char :: "nat \<Rightarrow> char" where
  "digit_char d = ''0123456789'' ! d"

function decimal :: "nat \<Rightarrow> string" where
  "decimal n =
     (let q = n div 10; d = digit_char (n mod 10)
      in if q = 0 then [d] else decimal q @ [d])"
  by pat_completeness auto
termination
  by (relation "measure id") auto

declare decimal.simps [simp del]

definition number_text :: "int \<Rightarrow> string" where
  "number_text i = (if 0 \<le> i then decimal (nat i) else CHR ''-'' # decimal (nat (- i)))"

text \<open>
  \<^verbatim>\<open>String(v)\<close>, the conversion behind \<^verbatim>\<open>'...' + v\<close> and behind the key of \<^verbatim>\<open>v in obj\<close>.
  An array is the comma-separated list of its elements, \<^verbatim>\<open>null\<close> and \<^verbatim>\<open>undefined\<close>
  elements being empty.
\<close>

fun join_comma :: "string list \<Rightarrow> string" where
  "join_comma [] = []"
| "join_comma [s] = s"
| "join_comma (s # t # ss) = s @ '','' @ join_comma (t # ss)"

fun to_string :: "jsval \<Rightarrow> string" where
  "to_string JUndefined = ''undefined''"
| "to_string JNull = ''null''"
| "to_string (JBool b) = (if b then ''true'' else ''false'')"
| "to_string (JNum n) = number_text n"
| "to_string (JStr s) = s"
| "to_string (JArr xs) =
     join_comma (map (\<lambda>x. if x = JUndefined \<or> x = JNull then [] else to_string x) xs)"
| "to_string (JObj _) = ''[object Object]''"
| "to_string (JError name msg) = (if msg = [] then name else name @ '': '' @ msg)"
| "to_string (JPort _) = ''[object MessagePort]''"
| "to_string (JEvent _ _ _) = ''[object MessageEvent]''"

section \<open>Plain objects used as dictionaries\<close>

text \<open>
  \<^verbatim>\<open>this.listeners\<close>, \<^verbatim>\<open>this.remotes\<close>, \<^verbatim>\<open>this.callbacks\<close>, \<^verbatim>\<open>this.commands\<close>,
  \<^verbatim>\<open>this.ports\<close> and \<^verbatim>\<open>this.threads\<close> are plain objects created by \<^verbatim>\<open>{}\<close> and used
  as dictionaries. \<^verbatim>\<open>Object.keys\<close> and \<^verbatim>\<open>for ... in\<close> enumerate string keys in the
  order of their insertion, so a dictionary is an association list in insertion order
  with one entry per key. The keys of the library are the identifiers of
  \<^verbatim>\<open>getUniqueId\<close>, thread names and command names: keys that look like array indices
  (which JavaScript enumerates first) and the names \<^verbatim>\<open>Object.prototype\<close> supplies to every
  object (\<^verbatim>\<open>toString\<close>, ...) are not modelled.
\<close>

type_synonym 'a dict = "(string \<times> 'a) list"

definition Object_keys :: "'a dict \<Rightarrow> string list" where
  "Object_keys obj = map fst obj"

text \<open>\<^verbatim>\<open>key in obj\<close>\<close>

definition obj_in :: "string \<Rightarrow> 'a dict \<Rightarrow> bool" where
  "obj_in key obj = (map_of obj key \<noteq> None)"

text \<open>\<^verbatim>\<open>obj[key] = v\<close>: an existing key keeps its place, a new one goes last.\<close>

fun obj_set :: "string \<Rightarrow> 'a \<Rightarrow> 'a dict \<Rightarrow> 'a dict" where
  "obj_set key v [] = [(key, v)]"
| "obj_set key v ((k, w) # rest) =
     (if k = key then (k, v) # rest else (k, w) # obj_set key v rest)"

lemma map_of_obj_set: "map_of (obj_set key v obj) k = (if k = key then Some v else map_of obj k)"
  by (induction obj) auto

text \<open>\<^verbatim>\<open>delete obj[key]\<close>\<close>

definition obj_delete :: "string \<Rightarrow> 'a dict \<Rightarrow> 'a dict" where
  "obj_delete key obj = filter (\<lambda>kv. fst kv \<noteq> key) obj"

text \<open>
  \<^verbatim>\<open>v.name\<close> for the property names the library reads. Reading a property of
  \<^verbatim>\<open>undefined\<close> or \<^verbatim>\<open>null\<close> throws; \<open>field\<close> is the read where the receiver is known
  to be neither (it yields \<^verbatim>\<open>undefined\<close> for a property that is not there), and each
  use below checks for \<^verbatim>\<open>null\<close> and \<^verbatim>\<open>undefined\<close> first where the source can meet them.
\<close>

fun field :: "jsval \<Rightarrow> string \<Rightarrow> jsval" where
  "field (JObj kvs) name = (case map_of kvs name of None \<Rightarrow> JUndefined | Some v \<Rightarrow> v)"
| "field (JError n msg) name =
     (if name = ''message'' then JStr msg
      else if name = ''name'' then JStr n
      else if name = ''stack'' then JStr (to_string (JError n msg))
      else JUndefined)"
| "field (JEvent trusted d ps) name =
     (if name = ''data'' then d
      else if name = ''ports'' then JArr ps
      else if name = ''isTrusted'' then JBool trusted
      else JUndefined)"
| "field _ name = JUndefined"

definition nullish :: "jsval \<Rightarrow> bool" where
  "nullish v = (v = JUndefined \<or> v = JNull)"

text \<open>
  \<^verbatim>\<open>JSON.parse(JSON.stringify(v))\<close>, the deep copy made before a payload is posted:
  properties holding \<^verbatim>\<open>undefined\<close> are dropped, \<^verbatim>\<open>undefined\<close> array elements become
  \<^verbatim>\<open>null\<close>, \<^verbatim>\<open>Error\<close> objects and ports, which have no enumerable properties of
  their own, become \<^verbatim>\<open>{}\<close>, and an event keeps its one enumerable own property
  \<^verbatim>\<open>isTrusted\<close>. \<^verbatim>\<open>JSON.stringify(undefined)\<close> is \<^verbatim>\<open>undefined\<close>, which
  \<^verbatim>\<open>JSON.parse\<close> rejects with a \<^verbatim>\<open>SyntaxError\<close>.
\<close>

fun json_value :: "jsval \<Rightarrow> jsval" where
  "json_value (JArr xs) = JArr (map (\<lambda>x. if x = JUndefined then JNull else json_value x) xs)"
| "json_value (JObj kvs) =
     JObj (map (\<lambda>(k, v). (k, json_value v)) (filter (\<lambda>(k, v). v \<noteq> JUndefined) kvs))"
| "json_value (JError _ _) = JObj []"
| "json_value (JPort _) = JObj []"
| "json_value (JEvent trusted _ _) = JObj [(''isTrusted'', JBool trusted)]"
| "json_value v = v"

definition json_clone :: "jsval \<Rightarrow> 's \<Rightarrow> (jsval, 's) completion" where
  "json_clone v s =
     (if v = JUndefined
      then Throw (''SyntaxError'', ''\"undefined\" is not valid JSON'') s
      else Return (json_value v) s)"

text \<open>
  \<^verbatim>\<open>data.thread = this.id\<close> under the guard \<^verbatim>\<open>typeof data === 'object'\<close>. The guard
  lets \<^verbatim>\<open>null\<close> through, where the assignment throws. On an array, an \<^verbatim>\<open>Error\<close> or a port
  the assignment adds a property that none of the modelled code reads back and that the
  tree of the value cannot hold; it is left out.
\<close>

definition stamp_thread :: "jsval \<Rightarrow> jsval \<Rightarrow> 's \<Rightarrow> (jsval, 's) completion" where
  "stamp_thread data sender s =
     (case data of
        JNull \<Rightarrow> Throw (TypeError ''Cannot set properties of null (setting 'thread')'') s
      | JObj kvs \<Rightarrow> Return (JObj (obj_set ''thread'' sender kvs)) s
      | _ \<Rightarrow> Return data s)"

section \<open>Identifiers: \<^verbatim>\<open>getUniqueId\<close> (RemoteWorker.js)\<close>

text \<open>
  \<^verbatim>\<open>++uniqueId + '.' + (new Date()).getTime() + '.' + (performance ? performance.now()
  : Math.random()) + '.' + Math.random()\<close>. The counter is a module variable, one per
  JavaScript realm (the controller's page, each worker). The clock and the random
  numbers come from the host: \<open>entropy n\<close> is the text they contribute to the \<open>n\<close>-th
  identifier.
\<close>

record realm =
  uniqueId :: nat
  entropy :: "nat \<Rightarrow> string"

definition unique_id_text :: "(nat \<Rightarrow> string) \<Rightarrow> nat \<Rightarrow> string" where
  "unique_id_text ent n = decimal n @ ''.'' @ ent n"

definition getUniqueId :: "realm \<Rightarrow> string \<times> realm" where
  "getUniqueId rl =
     (let n = uniqueId rl + 1
      in (unique_id_text (entropy rl) n, rl\<lparr>uniqueId := n\<rparr>))"

section \<open>ListenerAwareMixin.js\<close>

text \<open>
  \<open>'f\<close> is the type of the listener functions a unit holds. \<open>invoked\<close> is not a field of
  the source: it is the log of the listener calls made so far (the key of the listener
  and the event it was given), by which a call becomes observable.
\<close>

record 'f listener_aware =
  listeners :: "'f dict"
  invoked :: "(string \<times> jsval) list"

text \<open>
  A listener of a worker or of the controller: a function of one event. The model keeps
  of it whether it returns (\<open>None\<close>) or throws (\<open>Some e\<close>) on a given event.
\<close>

type_synonym listener = "jsval \<Rightarrow> js_error option"

text \<open>
  \<^verbatim>\<open>addMessageListener(fn)\<close>. The parameter is a function by its type, so the
  \<^verbatim>\<open>TypeError\<close> of the source for a non-function has no counterpart.
\<close>

definition addMessageListener ::
  "'f \<Rightarrow> realm \<Rightarrow> ('f, 'z) listener_aware_scheme
     \<Rightarrow> string \<times> realm \<times> ('f, 'z) listener_aware_scheme" where
  "addMessageListener fn rl this =
     (let (idx, rl') = getUniqueId rl
      in (idx, rl', this\<lparr>listeners := obj_set idx fn (listeners this)\<rparr>))"

definition removeMessageListener ::
  "string \<Rightarrow> ('f, 'z) listener_aware_scheme \<Rightarrow> bool \<times> ('f, 'z) listener_aware_scheme" where
  "removeMessageListener idx this =
     (if obj_in idx (listeners this)
      then (True, this\<lparr>listeners := obj_delete idx (listeners this)\<rparr>)
      else (False, this))"

text \<open>
  \<^verbatim>\<open>executeMessageListeners(evt)\<close>: \<^verbatim>\<open>for (const idx in this.listeners)
  { listener.call(listener, evt) }\<close>. There is no \<^verbatim>\<open>try\<close> in the loop: a listener that
  throws ends it, and the exception leaves the method.
\<close>

fun call_listeners ::
  "listener dict \<Rightarrow> jsval \<Rightarrow> (listener, 'z) listener_aware_scheme
     \<Rightarrow> (unit, (listener, 'z) listener_aware_scheme) completion" where
  "call_listeners [] evt this = Return () this"
| "call_listeners ((idx, listener) # rest) evt this =
     (let this' = this\<lparr>invoked := invoked this @ [(idx, evt)]\<rparr>
      in case listener evt of
           Some e \<Rightarrow> Throw e this'
         | None \<Rightarrow> call_listeners rest evt this')"

definition executeMessageListeners ::
  "jsval \<Rightarrow> (listener, 'z) listener_aware_scheme
     \<Rightarrow> (unit, (listener, 'z) listener_aware_scheme) completion" where
  "executeMessageListeners evt this = call_listeners (listeners this) evt this"

section \<open>RemoteAwareMixin.js\<close>

text \<open>
  The object behind \<^verbatim>\<open>registerCallbackId\<close> is a promise that carries its own
  \<^verbatim>\<open>resolve\<close> and \<^verbatim>\<open>reject\<close>. Promises live in a store (\<open>promises\<close>, a ghost field:
  the \<open>n\<close>-th promise created by this unit), and \<^verbatim>\<open>this.callbacks\<close> maps a callback id to
  the address of its promise. A promise settles once: \<^verbatim>\<open>resolve\<close> and \<^verbatim>\<open>reject\<close> after
  that do nothing.
\<close>

datatype promise_state = Pending | Fulfilled jsval | Rejected jsval

text \<open>
  \<open>'r\<close> is the type of the values of \<^verbatim>\<open>this.remotes\<close>: message ports in a worker,
  \<^verbatim>\<open>RemoteWorker\<close> objects in the controller. \<open>this_id\<close> is \<^verbatim>\<open>this.id\<close>.
\<close>

record ('f, 'r) remote_aware = "'f listener_aware" +
  this_id :: jsval
  remotes :: "'r dict"
  callbacks :: "nat dict"
  remoteKey :: nat
  promises :: "promise_state list"

definition MASTER_THREAD :: string where
  "MASTER_THREAD = ''master''"

definition isMasterThread :: "jsval \<Rightarrow> bool" where
  "isMasterThread threadKey = strict_eq threadKey (JStr MASTER_THREAD)"

definition isThisThread :: "jsval \<Rightarrow> ('f, 'r, 'z) remote_aware_scheme \<Rightarrow> bool" where
  "isThisThread threadKey this = strict_eq threadKey (this_id this)"

text \<open>
  \<^verbatim>\<open>getNextRemoteKey()\<close>. \<^verbatim>\<open>keys[this.remoteKey]\<close> past the end of the array is
  \<^verbatim>\<open>undefined\<close> (\<open>None\<close>); \<^verbatim>\<open>keys.length - 1\<close> is \<open>-1\<close> for no keys.
\<close>

definition getNextRemoteKey ::
  "('f, 'r, 'z) remote_aware_scheme \<Rightarrow> string option \<times> ('f, 'r, 'z) remote_aware_scheme" where
  "getNextRemoteKey this =
     (let keys = Object_keys (remotes this);
          key = (if remoteKey this < length keys then Some (keys ! remoteKey this) else None)
      in if int (remoteKey this) \<ge> int (length keys) - 1
         then (key, this\<lparr>remoteKey := 0\<rparr>)
         else (key, this\<lparr>remoteKey := remoteKey this + 1\<rparr>))"

text \<open>
  \<^verbatim>\<open>hasRemotes()\<close> is \<^verbatim>\<open>this.remotes.length !== 0\<close>. \<^verbatim>\<open>this.remotes\<close> is a plain
  object, so \<^verbatim>\<open>.length\<close> is the value stored under the key \<^verbatim>\<open>length\<close>: a port or a
  worker object if a sibling has that name, \<^verbatim>\<open>undefined\<close> otherwise.
\<close>

definition hasRemotes :: "('f, 'r, 'z) remote_aware_scheme \<Rightarrow> bool" where
  "hasRemotes this =
     (case map_of (remotes this) ''length'' of
        None \<Rightarrow> \<not> strict_eq JUndefined (JNum 0)
      | Some r \<Rightarrow> True)"

text \<open>
  \<^verbatim>\<open>sendMessageToRemote(threadId, data = {}, transferable = undefined)\<close> of the mixin.
  \<open>post\<close> is the \<^verbatim>\<open>postMessage\<close> method of the values of \<^verbatim>\<open>this.remotes\<close>.
\<close>

definition mixin_sendMessageToRemote ::
  "('r \<Rightarrow> jsval \<Rightarrow> jsval \<Rightarrow> ('f, 'r, 'z) remote_aware_scheme
      \<Rightarrow> (unit, ('f, 'r, 'z) remote_aware_scheme) completion)
   \<Rightarrow> jsval \<Rightarrow> jsval \<Rightarrow> jsval \<Rightarrow> ('f, 'r, 'z) remote_aware_scheme
   \<Rightarrow> (bool, ('f, 'r, 'z) remote_aware_scheme) completion" where
  "mixin_sendMessageToRemote post threadId data0 transferable this =
     (let data = (if data0 = JUndefined then JObj [] else data0)
      in case map_of (remotes this) (to_string threadId) of
           None \<Rightarrow> Return False this
         | Some remote \<Rightarrow>
             (case (if typeof_object data then stamp_thread data (this_id this) this
                    else Return data this) of
                Throw e this1 \<Rightarrow> Throw e this1
              | Return data1 this1 \<Rightarrow>
                  (case json_clone data1 this1 of
                     Throw e this2 \<Rightarrow> Throw e this2
                   | Return data2 this2 \<Rightarrow>
                       (case post remote data2 transferable this2 of
                          Throw e this3 \<Rightarrow> Throw e this3
                        | Return _ this3 \<Rightarrow> Return True this3))))"

text \<open>
  \<^verbatim>\<open>broadcast(data, transferable)\<close>: \<^verbatim>\<open>for (const key in this.remotes)
  this.sendMessageToRemote(key, data, transferable)\<close>. \<open>send\<close> is the
  \<^verbatim>\<open>sendMessageToRemote\<close> of the class at hand. The loop passes the same object each
  time, stamped by the calls before; stamping it again with the same id changes nothing.
\<close>

fun broadcast_keys ::
  "(jsval \<Rightarrow> jsval \<Rightarrow> jsval \<Rightarrow> 's \<Rightarrow> (bool, 's) completion)
   \<Rightarrow> string list \<Rightarrow> jsval \<Rightarrow> jsval \<Rightarrow> 's \<Rightarrow> (unit, 's) completion" where
  "broadcast_keys send [] data transferable this = Return () this"
| "broadcast_keys send (key # keys) data transferable this =
     (case send (JStr key) data transferable this of
        Throw e this' \<Rightarrow> Throw e this'
      | Return _ this' \<Rightarrow> broadcast_keys send keys data transferable this')"

text \<open>\<^verbatim>\<open>registerCallbackId(callbackId)\<close>; the promise returned is its address.\<close>

definition registerCallbackId ::
  "string \<Rightarrow> ('f, 'r, 'z) remote_aware_scheme \<Rightarrow> nat \<times> ('f, 'r, 'z) remote_aware_scheme" where
  "registerCallbackId callbackId this =
     (let promise = length (promises this)
      in (promise, this\<lparr>promises := promises this @ [Pending],
                        callbacks := obj_set callbackId promise (callbacks this)\<rparr>))"

definition settle ::
  "nat \<Rightarrow> promise_state \<Rightarrow> ('f, 'r, 'z) remote_aware_scheme \<Rightarrow> ('f, 'r, 'z) remote_aware_scheme" where
  "settle promise outcome this =
     (if promise < length (promises this) \<and> promises this ! promise = Pending
      then this\<lparr>promises := (promises this)[promise := outcome]\<rparr>
      else this)"

definition promise_resolve ::
  "nat \<Rightarrow> jsval \<Rightarrow> ('f, 'r, 'z) remote_aware_scheme \<Rightarrow> ('f, 'r, 'z) remote_aware_scheme" where
  "promise_resolve promise v this = settle promise (Fulfilled v) this"

definition promise_reject ::
  "nat \<Rightarrow> jsval \<Rightarrow> ('f, 'r, 'z) remote_aware_scheme \<Rightarrow> ('f, 'r, 'z) remote_aware_scheme" where
  "promise_reject promise e this = settle promise (Rejected e) this"

text \<open>
  \<^verbatim>\<open>receiveCommandResult(evt)\<close>. \<^verbatim>\<open>evt.data.returnId\<close> throws when \<^verbatim>\<open>evt.data\<close> is
  \<^verbatim>\<open>undefined\<close> or \<^verbatim>\<open>null\<close>. The entry is deleted first; the callback is then run in
  the state without it.
\<close>

definition receiveCommandResult ::
  "jsval \<Rightarrow> ('f, 'r, 'z) remote_aware_scheme \<Rightarrow> (unit, ('f, 'r, 'z) remote_aware_scheme) completion" where
  "receiveCommandResult evt this =
     (let data = field evt ''data''
      in if nullish data
         then Throw (TypeError ''Cannot read properties of undefined (reading 'returnId')'') this
         else
           (let returnId = to_string (field data ''returnId'')
            in case map_of (callbacks this) returnId of
                 None \<Rightarrow> Return () this
               | Some callback \<Rightarrow>
                   (let this1 = this\<lparr>callbacks := obj_delete returnId (callbacks this)\<rparr>
                    in if truthy (field data ''error'')
                       then Return () (promise_reject callback (field data ''error'') this1)
                       else Return () (promise_resolve callback (field data ''data'') this1))))"

text \<open>
  \<^verbatim>\<open>createMessageEvent(data, type = 'message', init = {})\<close>, as the library calls it: with
  the data only.
\<close>

definition createMessageEvent :: "jsval \<Rightarrow> jsval" where
  "createMessageEvent data = JEvent False data []"

section \<open>ThreadPool.js\<close>

text \<open>
  A command handler is a function of the sender's id and the arguments. The model keeps
  of it what \<^verbatim>\<open>executeCommand\<close> sees: it returns a value that is not a promise, it
  returns a promise that fulfils with a value or rejects with an error, or it throws.
\<close>

datatype handler_result = Returns jsval | Resolves jsval | Rejects js_error | Throws js_error

type_synonym handler = "jsval \<Rightarrow> jsval list \<Rightarrow> handler_result"

text \<open>
  Where a message is posted to: \<^verbatim>\<open>this.context.postMessage\<close> reaches the controller,
  \<^verbatim>\<open>port.postMessage\<close> the sibling at the other end of the port.
\<close>

datatype dest = ToMaster | ToPort nat

text \<open>
  \<^verbatim>\<open>response.then(...).catch(...)\<close> in \<^verbatim>\<open>executeCommand\<close> runs its callbacks after the
  current call has returned. \<open>Job outcome thread callbackId evt\<close> is such a pending
  reaction: the outcome of the handler's promise and the variables the two arrow
  functions close over.
\<close>

datatype job = Job "js_error + jsval" jsval jsval jsval

text \<open>
  The fields of the source are \<open>httpAuth\<close>, \<open>httpAccessToken\<close>, \<open>ports\<close>, \<open>commands\<close> and
  those of the mixins. A port of \<^verbatim>\<open>this.remotes\<close> or \<^verbatim>\<open>this.ports\<close> is \<open>Some n\<close>, or
  \<open>None\<close> for the \<^verbatim>\<open>undefined\<close> that \<^verbatim>\<open>evt.ports[0]\<close> yields on an event without ports.
  The other fields are the unit's surroundings: \<open>tp_realm\<close> the identifier counter of the
  worker's realm, \<open>outbox\<close> the messages posted so far, oldest first (destination, payload,
  transfer list), \<open>started\<close> the ports on which \<^verbatim>\<open>start()\<close> was called, \<open>jobs\<close> the promise
  reactions waiting to run.
\<close>

record thread_pool = "(listener, nat option) remote_aware" +
  httpAuth :: jsval
  httpAccessToken :: jsval
  ports :: "nat option dict"
  commands :: "handler dict"
  tp_realm :: realm
  outbox :: "(dest \<times> jsval \<times> jsval) list"
  started :: "nat list"
  jobs :: "job list"

text \<open>The constructor \<^verbatim>\<open>new ThreadPool(context)\<close>, in a realm whose clock is \<open>ent\<close>.\<close>

definition ThreadPool_new :: "(nat \<Rightarrow> string) \<Rightarrow> thread_pool" where
  "ThreadPool_new ent =
     \<lparr>listeners = [], invoked = [],
      this_id = JNull, remotes = [], callbacks = [], remoteKey = 0, promises = [],
      httpAuth = JNull, httpAccessToken = JNull, ports = [], commands = [],
      tp_realm = \<lparr>uniqueId = 0, entropy = ent\<rparr>, outbox = [], started = [], jobs = []\<rparr>"

text \<open>
  The elements an iteration over a value yields: \<^verbatim>\<open>f(...args)\<close> and the parameter
  pattern \<^verbatim>\<open>[data, transferable]\<close> iterate. Arrays and strings are iterable; numbers,
  booleans, \<^verbatim>\<open>undefined\<close>, \<^verbatim>\<open>null\<close> and plain objects are not, and iterating them
  throws a \<^verbatim>\<open>TypeError\<close> (\<open>None\<close>).
\<close>

fun js_iterate :: "jsval \<Rightarrow> jsval list option" where
  "js_iterate (JArr xs) = Some xs"
| "js_iterate (JStr s) = Some (map (\<lambda>c. JStr [c]) s)"
| "js_iterate _ = None"

text \<open>The \<open>i\<close>-th variable of an array pattern: \<^verbatim>\<open>undefined\<close> past the last element.\<close>

definition element :: "jsval list \<Rightarrow> nat \<Rightarrow> jsval" where
  "element xs i = (if i < length xs then xs ! i else JUndefined)"

text \<open>\<^verbatim>\<open>v.length\<close>\<close>

fun js_length :: "jsval \<Rightarrow> jsval" where
  "js_length (JArr xs) = JNum (int (length xs))"
| "js_length (JStr s) = JNum (int (length s))"
| "js_length v = field v ''length''"

text \<open>\<^verbatim>\<open>port.postMessage(data, transferable)\<close> on a value of \<^verbatim>\<open>this.remotes\<close>.\<close>

definition port_postMessage ::
  "nat option \<Rightarrow> jsval \<Rightarrow> jsval \<Rightarrow> thread_pool \<Rightarrow> (unit, thread_pool) completion" where
  "port_postMessage port data transferable this =
     (case port of
        None \<Rightarrow> Throw (TypeError ''Cannot read properties of undefined (reading 'postMessage')'') this
      | Some n \<Rightarrow> Return () (this\<lparr>outbox := outbox this @ [(ToPort n, data, transferable)]\<rparr>))"

text \<open>\<^verbatim>\<open>sendMessageToMaster(data, transferable = undefined)\<close>\<close>

definition sendMessageToMaster ::
  "jsval \<Rightarrow> jsval \<Rightarrow> thread_pool \<Rightarrow> (bool, thread_pool) completion" where
  "sendMessageToMaster data transferable this =
     (case (if \<not> truthy transferable \<or> strict_eq (js_length transferable) (JNum 0)
            then json_clone data this else Return data this) of
        Throw e this1 \<Rightarrow> Throw e this1
      | Return data1 this1 \<Rightarrow>
          Return True (this1\<lparr>outbox := outbox this1 @ [(ToMaster, data1, transferable)]\<rparr>))"

text \<open>\<^verbatim>\<open>ident(evt)\<close>\<close>

definition ident :: "jsval \<Rightarrow> thread_pool \<Rightarrow> thread_pool" where
  "ident evt this = this\<lparr>this_id := field (field evt ''data'') ''ident''\<rparr>"

text \<open>
  \<^verbatim>\<open>evt.ports[0]\<close>: it throws when the event has no \<^verbatim>\<open>ports\<close> array, and is
  \<^verbatim>\<open>undefined\<close> when the array is empty. The elements of the array are ports.
\<close>

definition first_port :: "jsval \<Rightarrow> thread_pool \<Rightarrow> (nat option, thread_pool) completion" where
  "first_port evt this =
     (case field evt ''ports'' of
        JArr (JPort n # _) \<Rightarrow> Return (Some n) this
      | JArr _ \<Rightarrow> Return None this
      | _ \<Rightarrow> Throw (TypeError ''Cannot read properties of undefined (reading '0')'') this)"

text \<open>\<^verbatim>\<open>port.start()\<close>\<close>

definition port_start :: "nat option \<Rightarrow> thread_pool \<Rightarrow> (unit, thread_pool) completion" where
  "port_start port this =
     (case port of
        None \<Rightarrow> Throw (TypeError ''Cannot read properties of undefined (reading 'start')'') this
      | Some n \<Rightarrow> Return () (this\<lparr>started := started this @ [n]\<rparr>))"

text \<open>\<^verbatim>\<open>remoteIdent(evt)\<close>, called with an event whose data is an object.\<close>

definition remoteIdent :: "jsval \<Rightarrow> thread_pool \<Rightarrow> (unit, thread_pool) completion" where
  "remoteIdent evt this =
     (let data = field evt ''data''
      in if truthy (field data ''terminate'')
         then Return () (this\<lparr>remotes := obj_delete (to_string (field data ''remote'')) (remotes this)\<rparr>)
         else
           (case first_port evt this of
              Throw e this1 \<Rightarrow> Throw e this1
            | Return port this1 \<Rightarrow>
                port_start port
                  (this1\<lparr>remotes := obj_set (to_string (field data ''remote'')) port (remotes this1)\<rparr>)))"

text \<open>
  \<^verbatim>\<open>remotePortIdent(evt)\<close>. The two \<^verbatim>\<open>addEventListener\<close> calls make the messages of the
  port arrive at \<^verbatim>\<open>messageListener\<close>; they change nothing the model holds.
\<close>

definition remotePortIdent :: "jsval \<Rightarrow> thread_pool \<Rightarrow> (unit, thread_pool) completion" where
  "remotePortIdent evt this =
     (let threadId = to_string (field (field evt ''data'') ''listen'')
      in case first_port evt this of
           Throw e this1 \<Rightarrow> Throw e this1
         | Return port this1 \<Rightarrow>
             port_start port (this1\<lparr>ports := obj_set threadId port (ports this1)\<rparr>))"

text \<open>\<^verbatim>\<open>setHttpAuthorization(auth)\<close> and \<^verbatim>\<open>setHttpAccessToken(accessToken)\<close> of the worker.\<close>

definition setHttpAuthorization :: "jsval \<Rightarrow> thread_pool \<Rightarrow> thread_pool" where
  "setHttpAuthorization auth this = this\<lparr>httpAuth := auth\<rparr>"

definition setHttpAccessToken :: "jsval \<Rightarrow> thread_pool \<Rightarrow> thread_pool" where
  "setHttpAccessToken accessToken this = this\<lparr>httpAccessToken := accessToken\<rparr>"

text \<open>\<^verbatim>\<open>data.cmd\<close> is truthy: the message is a command invocation.\<close>

definition is_command :: "jsval \<Rightarrow> bool" where
  "is_command data = truthy (field data ''cmd'')"

text \<open>
  \<^verbatim>\<open>sendMessageToRemote\<close>, \<^verbatim>\<open>messageListener\<close> and \<^verbatim>\<open>executeCommand\<close> call each other:
  a message for this unit itself re-enters \<^verbatim>\<open>messageListener\<close>, a command message goes
  to \<^verbatim>\<open>executeCommand\<close>, and an unknown command is answered through
  \<^verbatim>\<open>sendMessageToRemote\<close>. The recursion ends because that answer is not a command.

  In \<^verbatim>\<open>messageListener\<close>, \<^verbatim>\<open>typeof evt.data === 'object'\<close> holds of \<^verbatim>\<open>null\<close>, and
  \<^verbatim>\<open>evt.data.ident\<close> then throws. In \<^verbatim>\<open>executeCommand\<close>, the pattern
  \<^verbatim>\<open>const { cmd, args, thread, callbackId } = evt.data\<close> throws on \<^verbatim>\<open>undefined\<close> and
  \<^verbatim>\<open>null\<close>, and a handler that throws is not caught.
\<close>

function sendMessageToRemote ::
    "jsval \<Rightarrow> jsval \<Rightarrow> jsval \<Rightarrow> thread_pool \<Rightarrow> (bool, thread_pool) completion"
  and messageListener :: "jsval \<Rightarrow> thread_pool \<Rightarrow> (unit, thread_pool) completion"
  and executeCommand :: "jsval \<Rightarrow> thread_pool \<Rightarrow> (unit, thread_pool) completion" where
  "sendMessageToRemote threadId data0 transferable this =
     (let data = (if data0 = JUndefined then JObj [] else data0)
      in case (if typeof_object data then stamp_thread data (this_id this) this
               else Return data this) of
           Throw e this1 \<Rightarrow> Throw e this1
         | Return data1 this1 \<Rightarrow>
             if isMasterThread threadId then sendMessageToMaster data1 transferable this1
             else if isThisThread threadId this1 \<or> \<not> hasRemotes this1 then
               (case messageListener (createMessageEvent data1) this1 of
                  Throw e this2 \<Rightarrow> Throw e this2
                | Return _ this2 \<Rightarrow> Return True this2)
             else mixin_sendMessageToRemote port_postMessage threadId data1 transferable this1)"
| "messageListener evt this =
     (if truthy evt \<and> typeof_object (field evt ''data'') then
        (let data = field evt ''data''
         in if data = JNull
            then Throw (TypeError ''Cannot read properties of null (reading 'ident')'') this
            else if truthy (field data ''ident'') then Return () (ident evt this)
            else if truthy (field data ''remote'') then remoteIdent evt this
            else if truthy (field data ''listen'') then remotePortIdent evt this
            else if is_command data then executeCommand evt this
            else if truthy (field data ''returnId'') then receiveCommandResult evt this
            else if truthy (field data ''setHttpAccessToken'')
              then Return () (setHttpAccessToken (field data ''setHttpAccessToken'') this)
            else if truthy (field data ''setHttpAuth'')
              then Return () (setHttpAuthorization (field data ''setHttpAuth'') this)
            else executeMessageListeners evt this)
      else executeMessageListeners evt this)"
| "executeCommand evt this =
     (let data = field evt ''data''
      in if nullish data
         then Throw (TypeError ''Cannot destructure property 'cmd' of 'evt.data' as it is undefined.'') this
         else
           (let cmd = field data ''cmd''; args = field data ''args'';
                thread = field data ''thread''; callbackId = field data ''callbackId''
            in case map_of (commands this) (to_string cmd) of
                 None \<Rightarrow>
                   (case sendMessageToRemote thread
                           (JObj [(''returnId'', callbackId),
                                  (''error'', error_object (Error (''Command not found: '' @ to_string cmd)))])
                           JUndefined this of
                      Throw e this1 \<Rightarrow> Throw e this1
                    | Return _ this1 \<Rightarrow> Return () this1)
               | Some fn \<Rightarrow>
                   (case js_iterate args of
                      None \<Rightarrow> Throw (TypeError ''args is not iterable'') this
                    | Some argv \<Rightarrow>
                        (case fn thread argv of
                           Throws e \<Rightarrow> Throw e this
                         | Returns v \<Rightarrow>
                             Return () (this\<lparr>jobs := jobs this @ [Job (Inr v) thread callbackId evt]\<rparr>)
                         | Resolves v \<Rightarrow>
                             Return () (this\<lparr>jobs := jobs this @ [Job (Inr v) thread callbackId evt]\<rparr>)
                         | Rejects e \<Rightarrow>
                             Return () (this\<lparr>jobs := jobs this @ [Job (Inl e) thread callbackId evt]\<rparr>)))))"
  by pat_completeness auto


termination
proof (relation "measure (\<lambda>x. case x of
      Inl (threadId, data0, transferable, this) \<Rightarrow> (if is_command data0 then 5 else 2)
    | Inr (Inl (evt, this)) \<Rightarrow> (if is_command (field evt ''data'') then 4 else 1)
    | Inr (Inr (evt, this)) \<Rightarrow> 3)", goal_cases)
  case 1
  show ?case by simp
next
  case 2
  then show ?case
    by (auto simp: createMessageEvent_def stamp_thread_def is_command_def map_of_obj_set
             split: jsval.splits if_splits)
next
  case 3
  then show ?case by auto
next
  case 4
  then show ?case by (auto simp: is_command_def)
qed


declare sendMessageToRemote.simps [simp del] messageListener.simps [simp del]
  executeCommand.simps [simp del]

text \<open>
  The second callback of \<^verbatim>\<open>executeCommand\<close>, \<^verbatim>\<open>.catch(err => ...)\<close>. The text sent is
  \<^verbatim>\<open>err.stack || err.message || JSON.stringify(err)\<close>; the stack of an error starts with
  its name and message (the lines of the trace, which depend on the engine, are left
  out), and the JSON text of an \<^verbatim>\<open>Error\<close> is \<^verbatim>\<open>{}\<close>. An exception of this callback is
  caught by nobody: the rejection is unhandled and nothing more happens.
\<close>

definition error_text :: "js_error \<Rightarrow> jsval" where
  "error_text err =
     (if truthy (field (error_object err) ''stack'') then field (error_object err) ''stack''
      else if truthy (field (error_object err) ''message'') then field (error_object err) ''message''
      else JStr ''{}'')"

definition on_rejected :: "js_error \<Rightarrow> jsval \<Rightarrow> jsval \<Rightarrow> jsval \<Rightarrow> thread_pool \<Rightarrow> thread_pool" where
  "on_rejected err thread callbackId evt this =
     state_of (sendMessageToRemote thread
                 (JObj [(''error'', error_text err), (''returnId'', callbackId), (''previousEvent'', evt)])
                 JUndefined this)"

text \<open>
  One pending reaction of \<^verbatim>\<open>executeCommand\<close>. The first callback is
  \<^verbatim>\<open>([data, transferable]) => this.sendMessageToRemote(thread, { data, returnId:
  callbackId }, transferable)\<close>: its parameter is an array pattern, so the value the handler
  produced is iterated, and a value that is not iterable makes the callback throw a
  \<^verbatim>\<open>TypeError\<close> (the wording of its message is the engine's). What the first callback
  throws, and the rejection of the handler's promise, go to the second callback.
\<close>

fun run_job :: "job \<Rightarrow> thread_pool \<Rightarrow> thread_pool" where
  "run_job (Job (Inl err) thread callbackId evt) this = on_rejected err thread callbackId evt this"
| "run_job (Job (Inr v) thread callbackId evt) this =
     (case js_iterate v of
        None \<Rightarrow> on_rejected (TypeError (to_string v @ '' is not iterable'')) thread callbackId evt this
      | Some elems \<Rightarrow>
          (case sendMessageToRemote thread
                  (JObj [(''data'', element elems 0), (''returnId'', callbackId)])
                  (element elems 1) this of
             Throw e this1 \<Rightarrow> on_rejected e thread callbackId evt this1
           | Return _ this1 \<Rightarrow> this1))"

text \<open>
  The reactions queued so far run once the current call has returned, in the order in
  which they were queued.
\<close>

definition run_queued_jobs :: "thread_pool \<Rightarrow> thread_pool" where
  "run_queued_jobs this = fold run_job (jobs this) (this\<lparr>jobs := []\<rparr>)"

text \<open>
  \<^verbatim>\<open>registerCommand(name, fn)\<close>; \<open>fn\<close> is a function by its type, so the source's
  \<^verbatim>\<open>Error('Not a function')\<close> has no counterpart.
\<close>

definition registerCommand :: "string \<Rightarrow> handler \<Rightarrow> thread_pool \<Rightarrow> thread_pool" where
  "registerCommand name fn this = this\<lparr>commands := obj_set name fn (commands this)\<rparr>"

text \<open>
  \<^verbatim>\<open>sendCommand(name, args = [], thread = null)\<close>. The result is the promise (its
  address). The object given to \<^verbatim>\<open>executeCommand\<close> in the branch for no siblings is
  the literal \<^verbatim>\<open>{ thread: this.id, cmd: name, args, callbackId }\<close> itself, not an event
  that carries it.
\<close>

definition send_command_to ::
  "nat \<Rightarrow> string \<Rightarrow> string \<Rightarrow> jsval \<Rightarrow> jsval \<Rightarrow> thread_pool \<Rightarrow> (nat, thread_pool) completion" where
  "send_command_to promise callbackId name args thread this =
     (case sendMessageToRemote thread
             (JObj [(''cmd'', JStr name), (''args'', args), (''thread'', thread),
                    (''callbackId'', JStr callbackId)])
             JUndefined this of
        Throw e this1 \<Rightarrow> Throw e this1
      | Return sent this1 \<Rightarrow>
          if \<not> sent
          then Return promise
                 (promise_reject promise
                    (error_object (Error (''Unable to send to thread, '' @ to_string thread))) this1)
          else Return promise this1)"

definition sendCommand ::
  "string \<Rightarrow> jsval \<Rightarrow> jsval \<Rightarrow> thread_pool \<Rightarrow> (nat, thread_pool) completion" where
  "sendCommand name args thread this =
     (let (callbackId, rl) = getUniqueId (tp_realm this);
          (promise, this1) = registerCallbackId callbackId (this\<lparr>tp_realm := rl\<rparr>)
      in if \<not> obj_in name (commands this1)
         then Return promise (promise_reject promise (error_object (Error ''Invalid Command'')) this1)
         else if \<not> hasRemotes this1 then
           (case executeCommand
                   (JObj [(''thread'', this_id this1), (''cmd'', JStr name), (''args'', args),
                          (''callbackId'', JStr callbackId)])
                   this1 of
              Throw e this2 \<Rightarrow> Throw e this2
            | Return _ this2 \<Rightarrow> Return promise this2)
         else if \<not> truthy thread then
           (let (key, this2) = getNextRemoteKey this1
            in send_command_to promise callbackId name args
                 (case key of None \<Rightarrow> JUndefined | Some k \<Rightarrow> JStr k) this2)
         else if \<not> obj_in (to_string thread) (remotes this1)
         then Return promise (promise_reject promise (error_object (Error ''Invalid Thread'')) this1)
         else send_command_to promise callbackId name args thread this1)"

section \<open>RemoteWorker.js\<close>

text \<open>
  The controller's side of the host: \<open>host_realm\<close> is the identifier counter of the
  controller's realm, \<open>workers_spawned\<close> and \<open>channels_created\<close> count the \<^verbatim>\<open>Worker\<close> and
  \<^verbatim>\<open>MessageChannel\<close> objects constructed so far (the \<open>n\<close>-th worker is the handle \<open>n\<close>; the
  \<open>n\<close>-th channel has the ports \<open>2 * n\<close> and \<open>2 * n + 1\<close>), \<open>posted\<close> lists the messages
  given to \<^verbatim>\<open>worker.postMessage\<close>, oldest first (worker handle, payload, transfer list),
  and the other three fields log \<^verbatim>\<open>port.start()\<close>, \<^verbatim>\<open>port.stop()\<close> and
  \<^verbatim>\<open>worker.terminate()\<close>.
\<close>

record host =
  host_realm :: realm
  workers_spawned :: nat
  channels_created :: nat
  posted :: "(nat \<times> jsval \<times> jsval) list"
  ports_started :: "nat list"
  ports_stopped :: "nat list"
  workers_terminated :: "nat list"

text \<open>
  The constructor's argument \<^verbatim>\<open>which\<close>: the URL of a script, a worker class, or anything
  else.
\<close>

datatype worker_source = Script string | WorkerClass | NotAWorker

text \<open>
  The listeners of a \<^verbatim>\<open>RemoteWorker\<close>: the arrow function
  \<^verbatim>\<open>evt => this.messageListener(evt)\<close> that the controller installs, or a function of
  the user.
\<close>

datatype rw_listener = ClusterMessageListener | UserListener listener

text \<open>
  \<open>worker\<close> is the spawn handle, \<open>None\<close> for \<^verbatim>\<open>null\<close>; \<open>threads\<close> maps a sibling id to the
  channel made for it; \<open>rw_id\<close> is \<^verbatim>\<open>this.id\<close>.
\<close>

record remote_worker = "rw_listener listener_aware" +
  worker :: "nat option"
  threads :: "nat dict"
  rw_id :: string

text \<open>\<^verbatim>\<open>postMessage(data, transferrable = undefined)\<close> of a \<^verbatim>\<open>RemoteWorker\<close>\<close>

definition rw_postMessage :: "jsval \<Rightarrow> jsval \<Rightarrow> remote_worker \<Rightarrow> host \<Rightarrow> host" where
  "rw_postMessage data transferrable this h =
     (case worker this of
        None \<Rightarrow> h
      | Some handle \<Rightarrow> h\<lparr>posted := posted h @ [(handle, data, transferrable)]\<rparr>)"

text \<open>
  \<^verbatim>\<open>new RemoteWorker(which)\<close>. Spawning (\<^verbatim>\<open>new Worker(which)\<close>, \<^verbatim>\<open>new which()\<close>) is the
  host's part and is taken to succeed.
\<close>

definition RemoteWorker_new :: "worker_source \<Rightarrow> host \<Rightarrow> (remote_worker, host) completion" where
  "RemoteWorker_new wsrc h =
     (if wsrc = NotAWorker then Throw (Error ''Invalid Argument'') h
      else
        (let handle = workers_spawned h;
             h1 = h\<lparr>workers_spawned := handle + 1\<rparr>;
             (new_id, rl) = getUniqueId (host_realm h1);
             h2 = h1\<lparr>host_realm := rl\<rparr>;
             this = \<lparr>listeners = [], invoked = [], worker = Some handle, threads = [], rw_id = new_id\<rparr>
         in Return this (rw_postMessage (JObj [(''ident'', JStr new_id)]) JUndefined this h2)))"

text \<open>
  \<^verbatim>\<open>registerRemoteThread(worker)\<close> of a \<^verbatim>\<open>RemoteWorker\<close>: \<open>this\<close> is changed (the value
  returned), \<open>other\<close> only receives a message.
\<close>

definition rw_registerRemoteThread ::
  "remote_worker \<Rightarrow> remote_worker \<Rightarrow> host \<Rightarrow> (remote_worker, host) completion" where
  "rw_registerRemoteThread this other h =
     (if obj_in (rw_id other) (threads this)
      then Throw (Error (''Worker thread, '' @ rw_id other @ '', is already registered'')) h
      else
        (let channel = channels_created h;
             port1 = 2 * channel; port2 = 2 * channel + 1;
             h1 = h\<lparr>channels_created := channel + 1,
                    ports_started := ports_started h @ [port1, port2]\<rparr>;
             this1 = this\<lparr>threads := obj_set (rw_id other) channel (threads this)\<rparr>;
             h2 = rw_postMessage (JObj [(''listen'', JStr (rw_id this1))]) (JArr [JPort port1]) other h1;
             h3 = rw_postMessage (JObj [(''remote'', JStr (rw_id other))]) (JArr [JPort port2]) this1 h2
         in Return this1 h3))"

text \<open>
  \<^verbatim>\<open>for (const x of v)\<close> asks \<open>v\<close> for its iterator. An array gives its elements. A plain
  object has no iterator, whatever its keys, so the statement throws a \<^verbatim>\<open>TypeError\<close>
  before the first round (\<open>None\<close>).
\<close>

datatype 'a iterated = Array "'a list" | PlainObject "'a dict"

fun for_of :: "'a iterated \<Rightarrow> 'a list option" where
  "for_of (Array xs) = Some xs"
| "for_of (PlainObject obj) = None"

text \<open>
  \<^verbatim>\<open>terminate()\<close> of a \<^verbatim>\<open>RemoteWorker\<close>: the loop \<^verbatim>\<open>for (const thread of this.threads)\<close>
  over \<^verbatim>\<open>this.threads\<close>, which the constructor creates as \<^verbatim>\<open>{}\<close> and
  \<^verbatim>\<open>registerRemoteThread\<close> fills by key; then \<^verbatim>\<open>this.worker.terminate()\<close> and the three
  assignments.
\<close>

definition rw_terminate :: "remote_worker \<Rightarrow> host \<Rightarrow> (unit, remote_worker \<times> host) completion" where
  "rw_terminate this h =
     (case for_of (PlainObject (threads this)) of
        None \<Rightarrow> Throw (TypeError ''this.threads is not iterable'') (this, h)
      | Some channels \<Rightarrow>
          (let h1 = fold (\<lambda>channel h'. h'\<lparr>ports_stopped := ports_stopped h' @ [2 * channel, 2 * channel + 1]\<rparr>)
                         channels h;
               h2 = (case worker this of
                       None \<Rightarrow> h1
                     | Some handle \<Rightarrow> h1\<lparr>workers_terminated := workers_terminated h1 @ [handle]\<rparr>)
           in Return () (this\<lparr>listeners := [], worker := None, threads := []\<rparr>, h2)))"

section \<open>WorkerPool.js\<close>

text \<open>
  The class \<^verbatim>\<open>WorkerCluster\<close>. Its fields are \<open>httpAuthorization\<close>, \<open>httpAccessToken\<close> (here
  \<open>wc_httpAccessToken\<close>), \<open>which\<close> and those of the mixins; \<open>wc_host\<close> is the host it runs in.
\<close>

record worker_cluster = "(listener, remote_worker) remote_aware" +
  httpAuthorization :: jsval
  wc_httpAccessToken :: jsval
  which :: worker_source
  wc_host :: host

text \<open>\<^verbatim>\<open>remote.postMessage(data, transferable)\<close> on a value of the controller's \<^verbatim>\<open>this.remotes\<close>.\<close>

definition wc_post ::
  "remote_worker \<Rightarrow> jsval \<Rightarrow> jsval \<Rightarrow> worker_cluster \<Rightarrow> (unit, worker_cluster) completion" where
  "wc_post remote data transferable this =
     Return () (this\<lparr>wc_host := rw_postMessage data transferable remote (wc_host this)\<rparr>)"

text \<open>
  \<^verbatim>\<open>broadcast(data, transferable)\<close> on the controller, which does not override
  \<^verbatim>\<open>sendMessageToRemote\<close>.
\<close>

definition wc_broadcast :: "jsval \<Rightarrow> jsval \<Rightarrow> worker_cluster \<Rightarrow> (unit, worker_cluster) completion" where
  "wc_broadcast data transferable this =
     broadcast_keys (mixin_sendMessageToRemote wc_post) (Object_keys (remotes this)) data transferable this"

text \<open>\<^verbatim>\<open>initializeWorker(worker)\<close>\<close>

definition initializeWorker :: "remote_worker \<Rightarrow> worker_cluster \<Rightarrow> remote_worker \<times> worker_cluster" where
  "initializeWorker worker0 this =
     (let (idx, rl, worker1) = addMessageListener ClusterMessageListener (host_realm (wc_host this)) worker0;
          h1 = (wc_host this)\<lparr>host_realm := rl\<rparr>;
          h2 = (if truthy (httpAuthorization this)
                then rw_postMessage (JObj [(''setHttpAuthorization'', httpAuthorization this)]) JUndefined worker1 h1
                else h1);
          h3 = (if truthy (wc_httpAccessToken this)
                then rw_postMessage (JObj [(''setHttpAccessToken'', wc_httpAccessToken this)]) JUndefined worker1 h2
                else h2)
      in (worker1, this\<lparr>wc_host := h3\<rparr>))"

text \<open>
  \<^verbatim>\<open>registerRemoteThread(worker)\<close> of the controller. The loop
  \<^verbatim>\<open>for (const id in this.remotes)\<close> wires the new worker to each worker registered
  before; both objects change, and the first exception ends the loop.
\<close>

fun wire_remotes ::
  "string list \<Rightarrow> remote_worker \<Rightarrow> worker_cluster \<Rightarrow> (remote_worker, worker_cluster) completion" where
  "wire_remotes [] new_worker this = Return new_worker this"
| "wire_remotes (key # keys) new_worker this =
     (case map_of (remotes this) key of
        None \<Rightarrow> wire_remotes keys new_worker this
      | Some remote \<Rightarrow>
          (case rw_registerRemoteThread remote new_worker (wc_host this) of
             Throw e h1 \<Rightarrow> Throw e (this\<lparr>wc_host := h1\<rparr>)
           | Return remote1 h1 \<Rightarrow>
               (case rw_registerRemoteThread new_worker remote1 h1 of
                  Throw e h2 \<Rightarrow>
                    Throw e (this\<lparr>remotes := obj_set key remote1 (remotes this), wc_host := h2\<rparr>)
                | Return new_worker1 h2 \<Rightarrow>
                    wire_remotes keys new_worker1
                      (this\<lparr>remotes := obj_set key remote1 (remotes this), wc_host := h2\<rparr>))))"

definition registerRemoteThread ::
  "remote_worker \<Rightarrow> worker_cluster \<Rightarrow> (unit, worker_cluster) completion" where
  "registerRemoteThread new_worker this =
     (case wire_remotes (Object_keys (remotes this)) new_worker this of
        Throw e this1 \<Rightarrow> Throw e this1
      | Return new_worker1 this1 \<Rightarrow>
          Return () (this1\<lparr>remotes := obj_set (rw_id new_worker1) new_worker1 (remotes this1)\<rparr>))"

text \<open>
  \<^verbatim>\<open>spawn(numWorkers = 1)\<close>: one worker is constructed, initialised and registered; then
  \<^verbatim>\<open>numWorkers -= 1\<close>, and the method calls itself while the rest is positive.
\<close>

function spawn :: "int \<Rightarrow> worker_cluster \<Rightarrow> (unit, worker_cluster) completion" where
  "spawn numWorkers this =
     (case RemoteWorker_new (which this) (wc_host this) of
        Throw e h \<Rightarrow> Throw e (this\<lparr>wc_host := h\<rparr>)
      | Return new_worker h \<Rightarrow>
          (case initializeWorker new_worker (this\<lparr>wc_host := h\<rparr>) of
             (worker1, this1) \<Rightarrow>
               (case registerRemoteThread worker1 this1 of
                  Throw e this2 \<Rightarrow> Throw e this2
                | Return _ this2 \<Rightarrow>
                    if numWorkers - 1 > 0 then spawn (numWorkers - 1) this2 else Return () this2)))"
  by pat_completeness auto
termination
  by (relation "measure (\<lambda>(numWorkers, this). nat numWorkers)") auto

declare spawn.simps [simp del]

text \<open>The constructor \<^verbatim>\<open>new WorkerCluster(which, numWorkers = 3)\<close>, in the host \<open>h\<close>.\<close>

definition WorkerCluster_new :: "worker_source \<Rightarrow> int \<Rightarrow> host \<Rightarrow> (unit, worker_cluster) completion" where
  "WorkerCluster_new wsrc numWorkers h =
     spawn numWorkers
       \<lparr>listeners = [], invoked = [],
        this_id = JStr MASTER_THREAD, remotes = [], callbacks = [], remoteKey = 0, promises = [],
        httpAuthorization = JNull, wc_httpAccessToken = JNull, which = wsrc, wc_host = h\<rparr>"

text \<open>\<^verbatim>\<open>setHttpAuthorization(auth)\<close> and \<^verbatim>\<open>setHttpAccessToken(accessToken)\<close> of the controller.\<close>

definition wc_setHttpAuthorization :: "jsval \<Rightarrow> worker_cluster \<Rightarrow> (unit, worker_cluster) completion" where
  "wc_setHttpAuthorization auth this =
     wc_broadcast (JObj [(''setHttpAuthorization'', auth)]) JUndefined (this\<lparr>httpAuthorization := auth\<rparr>)"

definition wc_setHttpAccessToken :: "jsval \<Rightarrow> worker_cluster \<Rightarrow> (unit, worker_cluster) completion" where
  "wc_setHttpAccessToken accessToken this =
     wc_broadcast (JObj [(''setHttpAccessToken'', accessToken)]) JUndefined
       (this\<lparr>wc_httpAccessToken := accessToken\<rparr>)"

text \<open>
  \<^verbatim>\<open>terminate(id)\<close> of the controller with an id: the worker's own \<^verbatim>\<open>terminate()\<close>, the
  removal of the entry, the notice to the others.
\<close>

definition wc_terminate :: "string \<Rightarrow> worker_cluster \<Rightarrow> (unit, worker_cluster) completion" where
  "wc_terminate key this =
     (case map_of (remotes this) key of
        None \<Rightarrow> Return () this
      | Some remote \<Rightarrow>
          (case rw_terminate remote (wc_host this) of
             Throw e (remote1, h1) \<Rightarrow>
               Throw e (this\<lparr>remotes := obj_set key remote1 (remotes this), wc_host := h1\<rparr>)
           | Return _ (remote1, h1) \<Rightarrow>
               wc_broadcast (JObj [(''remote'', JStr key), (''terminate'', JBool True)]) JUndefined
                 (this\<lparr>remotes := obj_delete key (remotes this), wc_host := h1\<rparr>)))"

section \<open>Consecutive selections\<close>

text \<open>
  \<open>select_n n\<close> calls \<^verbatim>\<open>getNextRemoteKey()\<close> \<open>n\<close> times in a row, with nothing in between, and
  returns the keys in the order in which they were chosen.
\<close>

fun select_n ::
  "nat \<Rightarrow> ('f, 'r, 'z) remote_aware_scheme \<Rightarrow> string option list \<times> ('f, 'r, 'z) remote_aware_scheme" where
  "select_n 0 this = ([], this)"
| "select_n (Suc n) this =
     (let (key, this1) = getNextRemoteKey this;
          (keys, this2) = select_n n this1
      in (key # keys, this2))"

section \<open>Notions used in the statements\<close>

text \<open>The listener calls that run the listeners \<open>ls\<close> on the event \<open>evt\<close>, in the order of \<open>ls\<close>.\<close>

definition invocations :: "'f dict \<Rightarrow> jsval \<Rightarrow> (string \<times> jsval) list" where
  "invocations ls evt = map (\<lambda>kv. (fst kv, evt)) ls"

text \<open>Two listeners: one that returns, one that throws.\<close>

definition quiet :: listener where
  "quiet evt = None"

definition failing :: listener where
  "failing evt = Some (Error ''boom'')"

text \<open>
  \<^verbatim>\<open>sendCommand\<close> begins with \<^verbatim>\<open>const callbackId = getUniqueId()\<close> and
  \<^verbatim>\<open>this.registerCallbackId(callbackId)\<close>: \<open>callback_id this\<close> is the id it takes in the state
  \<open>this\<close>, \<open>registered this\<close> the state after the two calls.
\<close>

definition callback_id :: "thread_pool \<Rightarrow> string" where
  "callback_id this = fst (getUniqueId (tp_realm this))"

definition registered :: "thread_pool \<Rightarrow> thread_pool" where
  "registered this = snd (registerCallbackId (fst (getUniqueId (tp_realm this)))
                            (this\<lparr>tp_realm := snd (getUniqueId (tp_realm this))\<rparr>))"

text \<open>The payload \<^verbatim>\<open>{ cmd: name, args, thread, callbackId }\<close> of a command invocation.\<close>

definition command_message :: "string \<Rightarrow> jsval \<Rightarrow> jsval \<Rightarrow> string \<Rightarrow> jsval" where
  "command_message name args thread callbackId =
     JObj [(''cmd'', JStr name), (''args'', args), (''thread'', thread), (''callbackId'', JStr callbackId)]"


section \<open>Two workers and a pool, for the examples\<close>

text \<open>
  The handler \<^verbatim>\<open>(thread, x) => x\<close>. A worker by itself: constructed, told its id \<open>a\<close> by the
  controller, with the command \<open>echo\<close> registered. Two workers \<open>a\<close> and \<open>b\<close> that the
  controller has announced to each other (\<open>a\<close> reaches \<open>b\<close> through port 1, \<open>b\<close> reaches \<open>a\<close>
  through port 2), both with \<open>echo\<close> registered.
\<close>

definition echo :: handler where
  "echo thread args = Returns (element args 0)"

definition lone_worker :: thread_pool where
  "lone_worker =
     registerCommand ''echo'' echo
       (state_of (messageListener (JEvent True (JObj [(''ident'', JStr ''a'')]) [])
                    (ThreadPool_new (\<lambda>n. ''t''))))"

definition worker_a :: thread_pool where
  "worker_a = state_of (messageListener (JEvent True (JObj [(''remote'', JStr ''b'')]) [JPort 1]) lone_worker)"

definition worker_b :: thread_pool where
  "worker_b =
     state_of (messageListener (JEvent True (JObj [(''remote'', JStr ''a'')]) [JPort 2])
       (registerCommand ''echo'' echo
          (state_of (messageListener (JEvent True (JObj [(''ident'', JStr ''b'')]) [])
                       (ThreadPool_new (\<lambda>n. ''u''))))))"

text \<open>
  The messages of the exchange in which \<open>a\<close> sends \<open>echo\<close> with the argument 42 to its
  sibling: the request \<open>a\<close> posts, the answer \<open>b\<close> posts, and \<open>a\<close> after the request.
\<close>

definition echo_request :: jsval where
  "echo_request = JObj [(''cmd'', JStr ''echo''), (''args'', JArr [JNum 42]), (''thread'', JStr ''a''),
                        (''callbackId'', JStr ''1.t'')]"

definition echo_reply :: jsval where
  "echo_reply = JObj [(''error'', JStr ''TypeError: 42 is not iterable''), (''returnId'', JStr ''1.t''),
                      (''previousEvent'', JObj [(''isTrusted'', JBool True)]), (''thread'', JStr ''b'')]"

definition worker_a_sent :: thread_pool where
  "worker_a_sent = state_of (sendCommand ''echo'' (JArr [JNum 42]) JNull worker_a)"

text \<open>
  For comparison: the handler \<^verbatim>\<open>(thread, x) => [x]\<close>, worker \<open>b\<close> with this handler
  registered as \<open>echo\<close>, and the answer it posts.
\<close>

definition echo_boxed :: handler where
  "echo_boxed thread args = Returns (JArr [element args 0])"

definition worker_b_boxed :: thread_pool where
  "worker_b_boxed = registerCommand ''echo'' echo_boxed worker_b"

definition boxed_reply :: jsval where
  "boxed_reply = JObj [(''data'', JNum 42), (''returnId'', JStr ''1.t''), (''thread'', JStr ''b'')]"


definition fresh_host :: host where
  "fresh_host = \<lparr>host_realm = \<lparr>uniqueId = 0, entropy = \<lambda>n. ''t''\<rparr>, workers_spawned = 0,
                  channels_created = 0, posted = [], ports_started = [], ports_stopped = [],
                  workers_terminated = []\<rparr>"

definition pool_of_two :: worker_cluster where
  "pool_of_two = state_of (WorkerCluster_new (Script ''worker.js'') 2 fresh_host)"

definition authorization_push :: "jsval \<Rightarrow> jsval" where
  "authorization_push auth = JObj [(''setHttpAuthorization'', auth), (''thread'', JStr MASTER_THREAD)]"

section \<open>Well-formed pools\<close>

text \<open>The number a decimal numeral stands for.\<close>

definition digits_value :: "string \<Rightarrow> nat" where
  "digits_value s = foldl (\<lambda>a c. 10 * a + (of_char c - 48)) 0 s"

text \<open>
  \<open>minted rl\<close> are the identifiers \<^verbatim>\<open>getUniqueId\<close> has returned so far in the realm \<open>rl\<close>.
  A pool is well formed when its sibling map has one entry per key, every worker is
  registered under its own id, and the ids of the workers and the keys of their thread
  maps were minted in the controller's realm. The constructor makes such a pool and
  \<^verbatim>\<open>spawn\<close> keeps it so (both are part of the theorem on \<^verbatim>\<open>spawn\<close> below).
\<close>

definition minted :: "realm \<Rightarrow> string set" where
  "minted rl = unique_id_text (entropy rl) ` {1..uniqueId rl}"

definition cluster_ok :: "worker_cluster \<Rightarrow> bool" where
  "cluster_ok this \<longleftrightarrow>
     distinct (Object_keys (remotes this))
     \<and> (\<forall>(key, remote) \<in> set (remotes this).
           rw_id remote = key
           \<and> key \<in> minted (host_realm (wc_host this))
           \<and> set (Object_keys (threads remote)) \<subseteq> minted (host_realm (wc_host this)))"

text \<open>
  \<open>wired new_id this this'\<close>: the pool \<open>this'\<close> is \<open>this\<close> after some of its workers were
  wired to a new worker with the id \<open>new_id\<close>. The keys are the same, each worker kept its
  id and gained at most \<open>new_id\<close> in its thread map, and nothing was spawned or minted.
\<close>

definition wired :: "string \<Rightarrow> worker_cluster \<Rightarrow> worker_cluster \<Rightarrow> bool" where
  "wired new_id this this' \<longleftrightarrow>
     Object_keys (remotes this') = Object_keys (remotes this)
     \<and> (\<forall>(k, r') \<in> set (remotes this').
           \<exists>r. (k, r) \<in> set (remotes this) \<and> rw_id r' = rw_id r
               \<and> set (Object_keys (threads r')) \<subseteq> insert new_id (set (Object_keys (threads r))))
     \<and> host_realm (wc_host this') = host_realm (wc_host this)
     \<and> workers_spawned (wc_host this') = workers_spawned (wc_host this)
     \<and> which this' = which this"

text \<open>One round of \<^verbatim>\<open>spawn\<close>: the statements before \<^verbatim>\<open>numWorkers -= 1\<close>.\<close>

definition spawn_one :: "worker_cluster \<Rightarrow> (unit, worker_cluster) completion" where
  "spawn_one this =
     (case RemoteWorker_new (which this) (wc_host this) of
        Throw e h \<Rightarrow> Throw e (this\<lparr>wc_host := h\<rparr>)
      | Return new_worker h \<Rightarrow>
          (case initializeWorker new_worker (this\<lparr>wc_host := h\<rparr>) of
             (worker1, this1) \<Rightarrow> registerRemoteThread worker1 this1))"

section \<open>Facts about dictionaries and about the parts of \<^verbatim>\<open>sendCommand\<close>\<close>


lemma obj_in_keys: "obj_in k d \<longleftrightarrow> k \<in> set (Object_keys d)"
  by (induction d) (auto simp: obj_in_def Object_keys_def)

lemma keys_obj_set:
  "Object_keys (obj_set k v d) = (if k \<in> set (Object_keys d) then Object_keys d else Object_keys d @ [k])"
  by (induction d) (force simp: Object_keys_def)+

lemma in_obj_set: "(k', v') \<in> set (obj_set k v d) \<Longrightarrow> (k', v') = (k, v) \<or> (k', v') \<in> set d"
  by (induction d) (auto split: if_splits)

lemma obj_set_fresh: "k \<notin> set (Object_keys d) \<Longrightarrow> obj_set k v d = d @ [(k, v)]"
  by (induction d) (auto simp: Object_keys_def)

lemma hasRemotes_always: "hasRemotes this"
  by (simp add: hasRemotes_def split: option.split)

lemma registered_simps:
  "callbacks (registered this) = obj_set (fst (getUniqueId (tp_realm this))) (length (promises this)) (callbacks this)"
  "promises (registered this) = promises this @ [Pending]"
  "commands (registered this) = commands this"
  "remotes (registered this) = remotes this"
  "outbox (registered this) = outbox this"
  "jobs (registered this) = jobs this"
  "this_id (registered this) = this_id this"
  "remoteKey (registered this) = remoteKey this"
  by (simp_all add: registered_def registerCallbackId_def Let_def)







lemma command_message_stamped:
  "command_message name args thread cid \<noteq> JUndefined"
  "typeof_object (command_message name args thread cid)"
  "stamp_thread (command_message name args thread cid) sender this
     = Return (command_message name args sender cid) this"
  by (simp_all add: stamp_thread_def command_message_def)

lemma sendMessageToRemote_command:
  "sendMessageToRemote thread (command_message name args thread' cid) tr this =
     (if isMasterThread thread
      then sendMessageToMaster (command_message name args (this_id this) cid) tr this
      else if isThisThread thread this
      then (case messageListener (createMessageEvent (command_message name args (this_id this) cid)) this of
              Throw e this2 \<Rightarrow> Throw e this2
            | Return _ this2 \<Rightarrow> Return True this2)
      else mixin_sendMessageToRemote port_postMessage thread
             (command_message name args (this_id this) cid) tr this)"
  by (subst sendMessageToRemote.simps)
     (simp add: command_message_stamped hasRemotes_always)



lemma send_command_to_message:
  "send_command_to promise cid name args thread this =
     (case sendMessageToRemote thread (command_message name args thread cid) JUndefined this of
        Throw e this1 \<Rightarrow> Throw e this1
      | Return sent this1 \<Rightarrow>
          if \<not> sent
          then Return promise
                 (promise_reject promise
                    (error_object (Error (''Unable to send to thread, '' @ to_string thread))) this1)
          else Return promise this1)"
  by (simp add: send_command_to_def command_message_def)

lemma sendCommand_unfold:
  "sendCommand name args thread this =
     (if \<not> obj_in name (commands this)
      then Return (length (promises this))
             (promise_reject (length (promises this)) (error_object (Error ''Invalid Command''))
                (registered this))
      else if \<not> truthy thread
      then send_command_to (length (promises this)) (callback_id this) name args
             (case fst (getNextRemoteKey (registered this)) of None \<Rightarrow> JUndefined | Some k \<Rightarrow> JStr k)
             (snd (getNextRemoteKey (registered this)))
      else if \<not> obj_in (to_string thread) (remotes this)
      then Return (length (promises this))
             (promise_reject (length (promises this)) (error_object (Error ''Invalid Thread''))
                (registered this))
      else send_command_to (length (promises this)) (callback_id this) name args thread (registered this))"
  by (simp add: sendCommand_def registered_def callback_id_def Let_def split_def registerCallbackId_def
        hasRemotes_always)

lemma promise_reject_keeps:
  "callbacks (promise_reject p e this) = callbacks this"
  "commands (promise_reject p e this) = commands this"
  "outbox (promise_reject p e this) = outbox this"
  "jobs (promise_reject p e this) = jobs this"
  by (simp_all add: promise_reject_def settle_def)




section \<open>The examples, evaluated\<close>

lemma decimal_digit: "n < 10 \<Longrightarrow> decimal n = [digit_char n]"
  by (subst decimal.simps) simp

lemma decimal_1: "decimal (Suc 0) = ''1''"
  by (simp add: decimal.simps digit_char_def)

text \<open>The states of the three workers.\<close>

lemma lone_worker_eq:
  "lone_worker = \<lparr>listeners = [], invoked = [],
      this_id = JStr ''a'', remotes = [], callbacks = [], remoteKey = 0, promises = [],
      httpAuth = JNull, httpAccessToken = JNull, ports = [], commands = [(''echo'', echo)],
      tp_realm = \<lparr>uniqueId = 0, entropy = \<lambda>n. ''t''\<rparr>, outbox = [], started = [], jobs = []\<rparr>"
  by (simp add: lone_worker_def ThreadPool_new_def registerCommand_def ident_def messageListener.simps)

lemma worker_a_eq:
  "worker_a = \<lparr>listeners = [], invoked = [],
      this_id = JStr ''a'', remotes = [(''b'', Some 1)], callbacks = [], remoteKey = 0, promises = [],
      httpAuth = JNull, httpAccessToken = JNull, ports = [], commands = [(''echo'', echo)],
      tp_realm = \<lparr>uniqueId = 0, entropy = \<lambda>n. ''t''\<rparr>, outbox = [], started = [1], jobs = []\<rparr>"
  by (simp add: worker_a_def lone_worker_eq messageListener.simps remoteIdent_def first_port_def port_start_def Let_def)

lemma worker_b_eq:
  "worker_b = \<lparr>listeners = [], invoked = [],
      this_id = JStr ''b'', remotes = [(''a'', Some 2)], callbacks = [], remoteKey = 0, promises = [],
      httpAuth = JNull, httpAccessToken = JNull, ports = [], commands = [(''echo'', echo)],
      tp_realm = \<lparr>uniqueId = 0, entropy = \<lambda>n. ''u''\<rparr>, outbox = [], started = [2], jobs = []\<rparr>"
  by (simp add: worker_b_def ThreadPool_new_def registerCommand_def ident_def messageListener.simps
        remoteIdent_def first_port_def port_start_def Let_def)

text \<open>
  The exchange: \<open>a\<close> posts the request on its port to \<open>b\<close>; \<open>b\<close> runs the handler and, when
  the queued reaction runs, posts the answer; \<open>a\<close> receives the answer.
\<close>

lemma echo_request_posted:
  "sendCommand ''echo'' (JArr [JNum 42]) JNull worker_a
     = Return 0 (worker_a\<lparr>callbacks := [(''1.t'', 0)], promises := [Pending],
                           tp_realm := \<lparr>uniqueId = 1, entropy = \<lambda>n. ''t''\<rparr>,
                           outbox := [(ToPort 1, echo_request, JUndefined)]\<rparr>)"
  by (simp add: worker_a_eq echo_request_def sendCommand_def getUniqueId_def unique_id_text_def decimal_1
       registerCallbackId_def obj_in_def hasRemotes_def getNextRemoteKey_def Object_keys_def
       send_command_to_def sendMessageToRemote.simps stamp_thread_def isMasterThread_def isThisThread_def
       MASTER_THREAD_def mixin_sendMessageToRemote_def json_clone_def port_postMessage_def Let_def)

lemma echo_handled:
  "run_queued_jobs (state_of (messageListener (JEvent True echo_request []) worker_b))
     = worker_b\<lparr>outbox := [(ToPort 2, echo_reply, JUndefined)]\<rparr>"
  by (simp add: worker_b_eq echo_request_def echo_reply_def messageListener.simps is_command_def
       executeCommand.simps nullish_def echo_def element_def run_queued_jobs_def on_rejected_def
       TypeError_def error_text_def error_object_def number_text_def decimal.simps digit_char_def
       sendMessageToRemote.simps stamp_thread_def isMasterThread_def isThisThread_def
       MASTER_THREAD_def hasRemotes_def mixin_sendMessageToRemote_def json_clone_def port_postMessage_def Let_def)

lemma echo_reply_received:
  "messageListener (JEvent True echo_reply [])
      (worker_a\<lparr>callbacks := [(''1.t'', 0)], promises := [Pending],
                           tp_realm := \<lparr>uniqueId = 1, entropy = \<lambda>n. ''t''\<rparr>,
                           outbox := [(ToPort 1, echo_request, JUndefined)]\<rparr>)
    = Return () (worker_a\<lparr>callbacks := [], promises := [Rejected (JStr ''TypeError: 42 is not iterable'')],
                           tp_realm := \<lparr>uniqueId = 1, entropy = \<lambda>n. ''t''\<rparr>,
                           outbox := [(ToPort 1, echo_request, JUndefined)]\<rparr>)"
  by (simp add: worker_a_eq echo_reply_def messageListener.simps is_command_def receiveCommandResult_def
        nullish_def promise_reject_def settle_def obj_delete_def Let_def)

lemma worker_a_sent_eq:
  "worker_a_sent = worker_a\<lparr>callbacks := [(''1.t'', 0)], promises := [Pending],
                           tp_realm := \<lparr>uniqueId = 1, entropy = \<lambda>n. ''t''\<rparr>,
                           outbox := [(ToPort 1, echo_request, JUndefined)]\<rparr>"
  by (simp add: worker_a_sent_def echo_request_posted)

lemma lone_send:
  "sendCommand ''echo'' (JArr [JNum 42]) JNull lone_worker
     = Return 0 (lone_worker\<lparr>callbacks := [(''1.t'', 0)],
                   promises := [Rejected (JError ''Error'' ''Unable to send to thread, undefined'')],
                   tp_realm := \<lparr>uniqueId = 1, entropy = \<lambda>n. ''t''\<rparr>\<rparr>)"
  by (simp add: lone_worker_eq sendCommand_def getUniqueId_def unique_id_text_def decimal_1
       registerCallbackId_def obj_in_def hasRemotes_def getNextRemoteKey_def Object_keys_def
       send_command_to_def sendMessageToRemote.simps stamp_thread_def isMasterThread_def isThisThread_def
       MASTER_THREAD_def mixin_sendMessageToRemote_def Let_def promise_reject_def settle_def
       error_object_def Error_def)

lemma boxed_handled:
  "run_queued_jobs (state_of (messageListener (JEvent True echo_request []) worker_b_boxed))
     = worker_b_boxed\<lparr>outbox := [(ToPort 2, boxed_reply, JUndefined)]\<rparr>"
  by (simp add: worker_b_boxed_def registerCommand_def worker_b_eq echo_request_def boxed_reply_def
       messageListener.simps is_command_def
       executeCommand.simps nullish_def echo_boxed_def element_def run_queued_jobs_def
       sendMessageToRemote.simps stamp_thread_def isMasterThread_def isThisThread_def
       MASTER_THREAD_def hasRemotes_def mixin_sendMessageToRemote_def json_clone_def port_postMessage_def Let_def)

lemma boxed_received:
  "promises (state_of (messageListener (JEvent True boxed_reply []) worker_a_sent)) = [Fulfilled (JNum 42)]"
  unfolding worker_a_sent_eq
  by (simp add: worker_a_eq boxed_reply_def messageListener.simps is_command_def receiveCommandResult_def
        nullish_def promise_resolve_def settle_def obj_delete_def Let_def)

lemma call_listeners_keeps_http:
  "httpAuth (state_of (call_listeners ls evt this)) = httpAuth this"
  by (induction ls arbitrary: this) (auto simp: Let_def split: option.splits)

section \<open>Round-robin selection\<close>

lemma getNextRemoteKey_in_range:
  assumes "remoteKey this < length (remotes this)"
  shows "getNextRemoteKey this =
           (Some (Object_keys (remotes this) ! remoteKey this),
            this\<lparr>remoteKey := (remoteKey this + 1) mod length (remotes this)\<rparr>)"
proof (cases "remoteKey this + 1 = length (remotes this)")
  case True
  then show ?thesis using assms by (simp add: getNextRemoteKey_def Object_keys_def Let_def)
next
  case False
  with assms have "remoteKey this + 1 < length (remotes this)" by simp
  then show ?thesis using assms by (simp add: getNextRemoteKey_def Object_keys_def Let_def)
qed

lemma select_n_cycle:
  assumes "remoteKey this < length (remotes this)"
  shows "select_n n this =
           (map (\<lambda>i. Some (Object_keys (remotes this) ! ((remoteKey this + i) mod length (remotes this)))) [0..<n],
            this\<lparr>remoteKey := (remoteKey this + n) mod length (remotes this)\<rparr>)"
  using assms
proof (induction n arbitrary: this)
  case 0
  then show ?case by simp
next
  case (Suc n)
  let ?k = "length (remotes this)"
  let ?this1 = "this\<lparr>remoteKey := (remoteKey this + 1) mod ?k\<rparr>"
  have step: "getNextRemoteKey this = (Some (Object_keys (remotes this) ! remoteKey this), ?this1)"
    using Suc.prems by (rule getNextRemoteKey_in_range)
  have range1: "remoteKey ?this1 < length (remotes ?this1)"
    using Suc.prems by (auto intro: mod_less_divisor)
  have idx: "((remoteKey this + 1) mod ?k + i) mod ?k = (remoteKey this + Suc i) mod ?k" for i
    by (simp add: mod_add_left_eq)
  have upt: "[0..<Suc n] = 0 # map Suc [0..<n]"
    by (simp add: upt_conv_Cons map_Suc_upt del: upt_Suc)
  show ?case
    using Suc.IH [OF range1] Suc.prems
    by (simp add: step upt idx o_def mod_add_left_eq del: upt_Suc)
qed

lemma rotate_as_map:
  "rotate c xs = map (\<lambda>i. xs ! ((c + i) mod length xs)) [0..<length xs]"
  by (rule nth_equalityI) (simp_all add: nth_rotate)

lemma mset_rotate_eq: "mset (rotate n xs) = mset xs"
proof -
  let ?m = "n mod length xs"
  have "mset (rotate n xs) = mset (drop ?m xs) + mset (take ?m xs)"
    by (simp add: rotate_drop_take)
  also have "\<dots> = mset xs"
    by (metis append_take_drop_id mset_append union_commute)
  finally show ?thesis .
qed

text \<open>
  Claim C7. Over a fixed sibling set of size \<open>k\<close> whose cursor is in range (it is \<open>0\<close> at
  construction, and every selection leaves it in range), \<open>k\<close> consecutive selections
  return the keys of the siblings in their order, starting at the cursor and wrapping
  round: every sibling exactly once. The cursor is then where it was. One selection
  moves the cursor by one, and from the last sibling to zero.
\<close>

theorem round_robin_visits_each_sibling_once:
  assumes "remoteKey this < length (remotes this)"
  shows "fst (select_n (length (remotes this)) this)
           = map Some (rotate (remoteKey this) (Object_keys (remotes this)))
       \<and> mset (fst (select_n (length (remotes this)) this))
           = mset (map Some (Object_keys (remotes this)))
       \<and> snd (select_n (length (remotes this)) this) = this
       \<and> snd (getNextRemoteKey this)
           = this\<lparr>remoteKey := (if remoteKey this + 1 = length (remotes this) then 0 else remoteKey this + 1)\<rparr>"
proof -
  let ?keys = "Object_keys (remotes this)"
  have len: "length ?keys = length (remotes this)" by (simp add: Object_keys_def)
  have sel: "fst (select_n (length (remotes this)) this) = map Some (rotate (remoteKey this) ?keys)"
    using select_n_cycle [OF assms, of "length (remotes this)"] rotate_as_map [of "remoteKey this" ?keys]
    by (simp add: len o_def)
  have "mset (map Some (rotate (remoteKey this) ?keys)) = mset (map Some ?keys)"
    by (simp add: mset_rotate_eq)
  with sel have ms: "mset (fst (select_n (length (remotes this)) this)) = mset (map Some ?keys)"
    by simp
  have cycle: "snd (select_n (length (remotes this)) this) = this"
    using select_n_cycle [OF assms, of "length (remotes this)"] assms by simp
  have single: "snd (getNextRemoteKey this)
           = this\<lparr>remoteKey := (if remoteKey this + 1 = length (remotes this) then 0 else remoteKey this + 1)\<rparr>"
    using getNextRemoteKey_in_range [OF assms] assms by (auto simp: mod_Suc)
  from sel ms cycle single show ?thesis by blast
qed

theorem round_robin_visits_each_sibling_once_witness:
  "fst (select_n (Suc (Suc (Suc 0)))
          \<lparr>listeners = []::(string \<times> listener) list, invoked = [], this_id = JStr ''master'',
           remotes = [(''a'', 1::nat), (''b'', 2), (''c'', 3)],
           callbacks = [], remoteKey = 1, promises = []\<rparr>)
     = [Some ''b'', Some ''c'', Some ''a'']"
proof -
  let ?st = "\<lparr>listeners = []::(string \<times> listener) list, invoked = [], this_id = JStr ''master'',
                remotes = [(''a'', 1::nat), (''b'', 2), (''c'', 3)],
                callbacks = [], remoteKey = 1, promises = []\<rparr>"
  have in_range: "remoteKey ?st < length (remotes ?st)"
    by simp
  have "fst (select_n (length (remotes ?st)) ?st)
          = map Some (rotate (remoteKey ?st) (Object_keys (remotes ?st)))"
    using round_robin_visits_each_sibling_once [OF in_range] by (rule conjunct1)
  moreover have "length (remotes ?st) = Suc (Suc (Suc 0))"
    by simp
  moreover have "map Some (rotate (remoteKey ?st) (Object_keys (remotes ?st)))
          = [Some ''b'', Some ''c'', Some ''a'']"
    by (simp add: Object_keys_def)
  ultimately show ?thesis
    by simp
qed

section \<open>The echo round trip\<close>

text \<open>
  Claim C1 fails on the code. Worker \<open>a\<close> sends \<open>echo\<close> with the argument 42; round-robin
  selection picks its sibling \<open>b\<close>, and the request is posted on the port to \<open>b\<close>. In \<open>b\<close> the
  handler returns 42, and the callback \<^verbatim>\<open>([data, transferable]) => ...\<close> takes the result
  apart as an array: 42 is not iterable, the callback throws, and \<open>b\<close> answers with the error
  text. On this answer the promise in \<open>a\<close> is rejected, not resolved to 42. With no sibling
  at all the promise is rejected at once: nothing can be sent. (Last two lines: had the
  handler returned the array \<^verbatim>\<open>[42]\<close>, \<open>b\<close> would have answered with the data 42 and the
  promise in \<open>a\<close> would be fulfilled with 42.)
\<close>

theorem echo_round_trip_rejects:
  "sendCommand ''echo'' (JArr [JNum 42]) JNull worker_a = Return 0 worker_a_sent
   \<and> outbox worker_a_sent = [(ToPort 1, echo_request, JUndefined)]
   \<and> run_queued_jobs (state_of (messageListener (JEvent True echo_request []) worker_b))
       = worker_b\<lparr>outbox := [(ToPort 2, echo_reply, JUndefined)]\<rparr>
   \<and> promises (state_of (messageListener (JEvent True echo_reply []) worker_a_sent))
       = [Rejected (JStr ''TypeError: 42 is not iterable'')]
   \<and> promises (state_of (sendCommand ''echo'' (JArr [JNum 42]) JNull lone_worker))
       = [Rejected (JError ''Error'' ''Unable to send to thread, undefined'')]
   \<and> run_queued_jobs (state_of (messageListener (JEvent True echo_request []) worker_b_boxed))
       = worker_b_boxed\<lparr>outbox := [(ToPort 2, boxed_reply, JUndefined)]\<rparr>
   \<and> promises (state_of (messageListener (JEvent True boxed_reply []) worker_a_sent))
       = [Fulfilled (JNum 42)]"
proof (intro conjI)
  show "sendCommand ''echo'' (JArr [JNum 42]) JNull worker_a = Return 0 worker_a_sent"
    unfolding worker_a_sent_eq by (rule echo_request_posted)
  show "outbox worker_a_sent = [(ToPort 1, echo_request, JUndefined)]"
    unfolding worker_a_sent_eq by simp
  show "run_queued_jobs (state_of (messageListener (JEvent True echo_request []) worker_b))
       = worker_b\<lparr>outbox := [(ToPort 2, echo_reply, JUndefined)]\<rparr>"
    by (rule echo_handled)
  show "promises (state_of (messageListener (JEvent True echo_reply []) worker_a_sent))
       = [Rejected (JStr ''TypeError: 42 is not iterable'')]"
    unfolding worker_a_sent_eq echo_reply_received by simp
  show "promises (state_of (sendCommand ''echo'' (JArr [JNum 42]) JNull lone_worker))
       = [Rejected (JError ''Error'' ''Unable to send to thread, undefined'')]"
    unfolding lone_send by simp
  show "run_queued_jobs (state_of (messageListener (JEvent True echo_request []) worker_b_boxed))
       = worker_b_boxed\<lparr>outbox := [(ToPort 2, boxed_reply, JUndefined)]\<rparr>"
    by (rule boxed_handled)
  show "promises (state_of (messageListener (JEvent True boxed_reply []) worker_a_sent))
       = [Fulfilled (JNum 42)]"
    by (rule boxed_received)
qed

section \<open>Commands of a worker without siblings\<close>

text \<open>
  Claim C2 fails on the code. \<^verbatim>\<open>hasRemotes()\<close> holds in every state, so the branch of
  \<^verbatim>\<open>sendCommand\<close> that executes locally is never taken. In a worker whose sibling map is
  empty (and whose id is \<^verbatim>\<open>null\<close> or a string, as the constructor and \<^verbatim>\<open>ident\<close> leave
  it), a registered command is not executed: no handler is called (no reaction is
  queued), nothing is posted, and the promise is rejected, with \<^verbatim>\<open>Invalid Thread\<close> when a
  target was given and with \<^verbatim>\<open>Unable to send to thread, undefined\<close> when none was.
\<close>

theorem sendCommand_without_siblings:
  assumes "remotes this = []" and "obj_in name (commands this)" and "this_id this \<noteq> JUndefined"
  shows "sendCommand name args thread this
           = Return (length (promises this))
               (promise_reject (length (promises this))
                  (error_object (Error (if truthy thread then ''Invalid Thread''
                                        else ''Unable to send to thread, undefined'')))
                  (if truthy thread then registered this else (registered this)\<lparr>remoteKey := 0\<rparr>))
       \<and> promises (state_of (sendCommand name args thread this)) ! length (promises this)
           = Rejected (error_object (Error (if truthy thread then ''Invalid Thread''
                                            else ''Unable to send to thread, undefined'')))
       \<and> jobs (state_of (sendCommand name args thread this)) = jobs this
       \<and> outbox (state_of (sendCommand name args thread this)) = outbox this"
proof (cases "truthy thread")
  case True
  then show ?thesis
    using assms
    by (simp add: sendCommand_unfold obj_in_def promise_reject_keeps registered_simps
          promise_reject_def settle_def)
next
  case False
  have key: "getNextRemoteKey (registered this) = (None, (registered this)\<lparr>remoteKey := 0\<rparr>)"
    using assms(1) by (simp add: getNextRemoteKey_def Object_keys_def registered_simps Let_def)
  have not_self: "\<not> isThisThread JUndefined ((registered this)\<lparr>remoteKey := 0\<rparr>)"
    using assms(3) by (cases "this_id this") (simp_all add: isThisThread_def registered_simps)
  have sent: "sendMessageToRemote JUndefined (command_message name args JUndefined (callback_id this)) JUndefined
                ((registered this)\<lparr>remoteKey := 0\<rparr>)
              = Return False ((registered this)\<lparr>remoteKey := 0\<rparr>)"
    using assms(1) not_self
    by (simp add: sendMessageToRemote_command isMasterThread_def mixin_sendMessageToRemote_def
          registered_simps)
  have rejected: "promises (promise_reject (length (promises this)) e ((registered this)\<lparr>remoteKey := 0\<rparr>))
                    ! length (promises this) = Rejected e" for e
    by (simp add: promise_reject_def settle_def registered_simps)
  show ?thesis
    using False assms(2)
    by (simp add: sendCommand_unfold key send_command_to_message sent promise_reject_keeps registered_simps
          rejected)
qed

theorem sendCommand_without_siblings_witness:
  "sendCommand ''echo'' (JArr [JNum 42]) JNull lone_worker
     = Return 0 (lone_worker\<lparr>callbacks := [(''1.t'', 0)],
                   promises := [Rejected (JError ''Error'' ''Unable to send to thread, undefined'')],
                   tp_realm := \<lparr>uniqueId = 1, entropy = \<lambda>n. ''t''\<rparr>\<rparr>)"
proof -
  have "remotes lone_worker = []" "obj_in ''echo'' (commands lone_worker)" "this_id lone_worker \<noteq> JUndefined"
    by (simp_all add: lone_worker_eq obj_in_def)
  from sendCommand_without_siblings [OF this, of "JArr [JNum 42]" JNull]
  show ?thesis
    by (simp add: lone_worker_eq registered_def getUniqueId_def unique_id_text_def decimal_1
          registerCallbackId_def promise_reject_def settle_def error_object_def Error_def Let_def)
qed

section \<open>Dispatch to listeners\<close>

lemma call_listeners_quiet_prefix:
  assumes "\<forall>kv \<in> set pre. snd kv evt = None"
  shows "call_listeners (pre @ rest) evt this
           = call_listeners rest evt (this\<lparr>invoked := invoked this @ invocations pre evt\<rparr>)"
  using assms
proof (induction pre arbitrary: this)
  case Nil
  show ?case by (simp add: invocations_def)
next
  case (Cons kv pre)
  obtain idx l where kv: "kv = (idx, l)" by (cases kv)
  from Cons.prems have quiet: "l evt = None" and rest: "\<forall>kv \<in> set pre. snd kv evt = None"
    by (simp_all add: kv)
  show ?case
    using Cons.IH [OF rest, of "this\<lparr>invoked := invoked this @ [(idx, evt)]\<rparr>"] quiet
    by (simp add: kv invocations_def)
qed

text \<open>
  Claim C3, amended. \<^verbatim>\<open>executeMessageListeners\<close> calls the listeners in the order of their
  registration, each with the same event. If none of them throws, all of them are called
  and the method returns. If one throws, the listeners registered before it and the
  thrower itself have been called, the listeners after it are not, and the exception
  leaves the method: nothing catches it. (The order of the calls is the order of the
  dictionary, and that is the order of registration: \<^verbatim>\<open>addMessageListener\<close> puts a
  listener with a new id last.)
\<close>

theorem dispatch_stops_at_first_throw:
  "((\<forall>kv \<in> set (listeners this). snd kv evt = None) \<longrightarrow>
      executeMessageListeners evt this
        = Return () (this\<lparr>invoked := invoked this @ invocations (listeners this) evt\<rparr>))
   \<and> (listeners this = pre @ (idx, l) # post \<and> (\<forall>kv \<in> set pre. snd kv evt = None) \<and> l evt = Some e \<longrightarrow>
      executeMessageListeners evt this
        = Throw e (this\<lparr>invoked := invoked this @ invocations (pre @ [(idx, l)]) evt\<rparr>))
   \<and> (fst (getUniqueId rl) \<notin> set (Object_keys (listeners this)) \<longrightarrow>
      listeners (snd (snd (addMessageListener fn rl this)))
        = listeners this @ [(fst (getUniqueId rl), fn)])"
proof (intro conjI impI)
  assume "\<forall>kv \<in> set (listeners this). snd kv evt = None"
  from call_listeners_quiet_prefix [OF this, of "[]" this]
  show "executeMessageListeners evt this
        = Return () (this\<lparr>invoked := invoked this @ invocations (listeners this) evt\<rparr>)"
    by (simp add: executeMessageListeners_def)
next
  assume a: "listeners this = pre @ (idx, l) # post \<and> (\<forall>kv \<in> set pre. snd kv evt = None) \<and> l evt = Some e"
  then have "call_listeners (pre @ (idx, l) # post) evt this
           = call_listeners ((idx, l) # post) evt (this\<lparr>invoked := invoked this @ invocations pre evt\<rparr>)"
    by (intro call_listeners_quiet_prefix) simp
  with a show "executeMessageListeners evt this
        = Throw e (this\<lparr>invoked := invoked this @ invocations (pre @ [(idx, l)]) evt\<rparr>)"
    by (simp add: executeMessageListeners_def invocations_def)
next
  assume "fst (getUniqueId rl) \<notin> set (Object_keys (listeners this))"
  then show "listeners (snd (snd (addMessageListener fn rl this)))
        = listeners this @ [(fst (getUniqueId rl), fn)]"
    by (simp add: addMessageListener_def split_def Let_def obj_set_fresh)
qed

theorem dispatch_witness:
  "executeMessageListeners (JEvent True (JStr ''hi'') [])
       \<lparr>listeners = [(''l1'', quiet), (''l2'', quiet)], invoked = []\<rparr>
     = Return () \<lparr>listeners = [(''l1'', quiet), (''l2'', quiet)],
                   invoked = [(''l1'', JEvent True (JStr ''hi'') []), (''l2'', JEvent True (JStr ''hi'') [])]\<rparr>
   \<and> executeMessageListeners (JEvent True (JStr ''hi'') [])
       \<lparr>listeners = [(''l1'', quiet), (''l2'', failing), (''l3'', quiet)], invoked = []\<rparr>
     = Throw (Error ''boom'')
         \<lparr>listeners = [(''l1'', quiet), (''l2'', failing), (''l3'', quiet)],
          invoked = [(''l1'', JEvent True (JStr ''hi'') []), (''l2'', JEvent True (JStr ''hi'') [])]\<rparr>
   \<and> listeners (snd (snd (addMessageListener failing \<lparr>uniqueId = 1, entropy = \<lambda>n. ''t''\<rparr>
                               \<lparr>listeners = [(''1.t'', quiet)], invoked = []\<rparr>)))
     = [(''1.t'', quiet), (''2.t'', failing)]"
proof (intro conjI)
  let ?evt = "JEvent True (JStr ''hi'') []"
  let ?calm = "\<lparr>listeners = [(''l1'', quiet), (''l2'', quiet)], invoked = []\<rparr>"
  let ?loud = "\<lparr>listeners = [(''l1'', quiet), (''l2'', failing), (''l3'', quiet)], invoked = []\<rparr>"
  have "executeMessageListeners ?evt ?calm
          = Return () (?calm\<lparr>invoked := invoked ?calm @ invocations (listeners ?calm) ?evt\<rparr>)"
    by (rule mp [OF conjunct1 [OF dispatch_stops_at_first_throw [where this = ?calm and evt = ?evt]]])
       (simp add: quiet_def)
  then show "executeMessageListeners ?evt ?calm
     = Return () \<lparr>listeners = [(''l1'', quiet), (''l2'', quiet)],
                   invoked = [(''l1'', ?evt), (''l2'', ?evt)]\<rparr>"
    by (simp add: invocations_def)
  have "executeMessageListeners ?evt ?loud
          = Throw (Error ''boom'')
              (?loud\<lparr>invoked := invoked ?loud @ invocations ([(''l1'', quiet)] @ [(''l2'', failing)]) ?evt\<rparr>)"
    by (rule mp [OF conjunct1 [OF conjunct2 [OF dispatch_stops_at_first_throw
         [where this = ?loud and evt = ?evt and pre = "[(''l1'', quiet)]" and idx = "''l2''"
            and l = failing and post = "[(''l3'', quiet)]" and e = "Error ''boom''"]]]])
       (simp add: quiet_def failing_def)
  then show "executeMessageListeners ?evt ?loud
     = Throw (Error ''boom'')
         \<lparr>listeners = [(''l1'', quiet), (''l2'', failing), (''l3'', quiet)],
          invoked = [(''l1'', ?evt), (''l2'', ?evt)]\<rparr>"
    by (simp add: invocations_def)
  let ?rl = "\<lparr>uniqueId = 1, entropy = \<lambda>n. ''t''\<rparr>"
  let ?one = "\<lparr>listeners = [(''1.t'', quiet)], invoked = []\<rparr>"
  have "listeners (snd (snd (addMessageListener failing ?rl ?one)))
          = listeners ?one @ [(fst (getUniqueId ?rl), failing)]"
    by (rule mp [OF conjunct2 [OF conjunct2 [OF dispatch_stops_at_first_throw
          [where this = ?one and rl = ?rl and fn = failing]]]])
       (simp add: Object_keys_def getUniqueId_def unique_id_text_def decimal_digit digit_char_def)
  then show "listeners (snd (snd (addMessageListener failing ?rl ?one)))
     = [(''1.t'', quiet), (''2.t'', failing)]"
    by (simp add: getUniqueId_def unique_id_text_def decimal_digit digit_char_def)
qed

text \<open>
  Claim C3 as stated fails: with a first listener that throws and a second that would
  return, the second is never called and the exception is rethrown.
\<close>

theorem dispatch_counterexample:
  "executeMessageListeners (JEvent True (JStr ''hi'') [])
       \<lparr>listeners = [(''l1'', failing), (''l2'', quiet)], invoked = []\<rparr>
     = Throw (Error ''boom'')
         \<lparr>listeners = [(''l1'', failing), (''l2'', quiet)],
          invoked = [(''l1'', JEvent True (JStr ''hi'') [])]\<rparr>"
  by (simp add: executeMessageListeners_def quiet_def failing_def)

section \<open>Terminating a unit handle\<close>

text \<open>
  Claim C4 fails on the code: for every \<^verbatim>\<open>RemoteWorker\<close> and every host, \<^verbatim>\<open>terminate()\<close>
  throws a \<^verbatim>\<open>TypeError\<close> at its first statement and leaves the handle and the host as
  they were: the spawn handle is not released and the maps are not emptied.
\<close>

theorem terminate_throws:
  "rw_terminate this h = Throw (TypeError ''this.threads is not iterable'') (this, h)"
  by (simp add: rw_terminate_def)

text \<open>
  The controller's \<^verbatim>\<open>terminate(id)\<close> calls it first: for a registered id it throws as
  well, and the entry is neither removed nor announced as removed.
\<close>

lemma wc_terminate_throws:
  assumes "map_of (remotes this) key = Some remote"
  shows "\<not> returns (wc_terminate key this)"
    and "Object_keys (remotes (state_of (wc_terminate key this))) = Object_keys (remotes this)"
    and "posted (wc_host (state_of (wc_terminate key this))) = posted (wc_host this)"
proof -
  from assms have "(key, remote) \<in> set (remotes this)"
    by (rule map_of_SomeD)
  then have "key \<in> set (Object_keys (remotes this))"
    by (force simp: Object_keys_def)
  then show "Object_keys (remotes (state_of (wc_terminate key this))) = Object_keys (remotes this)"
    using assms by (simp add: wc_terminate_def rw_terminate_def keys_obj_set)
  show "\<not> returns (wc_terminate key this)"
    and "posted (wc_host (state_of (wc_terminate key this))) = posted (wc_host this)"
    using assms by (simp_all add: wc_terminate_def rw_terminate_def)
qed

section \<open>Pushing the HTTP credential\<close>

text \<open>
  Claim C5 fails on the code. The controller's \<^verbatim>\<open>setHttpAuthorization(auth)\<close> posts
  \<^verbatim>\<open>{ setHttpAuthorization: auth, thread: 'master' }\<close> to every worker (here: the two
  workers of a pool). The worker's \<^verbatim>\<open>messageListener\<close> looks for the field \<^verbatim>\<open>setHttpAuth\<close>:
  for every credential and every worker state the message falls through to the generic
  listeners and \<^verbatim>\<open>httpAuth\<close> keeps its value. A message with the field \<^verbatim>\<open>setHttpAuth\<close>
  would set it, and the access-token push, whose field has the same name on both sides,
  does work.
\<close>

theorem authorization_push_not_recognised:
  "posted (wc_host (state_of (wc_setHttpAuthorization (JStr ''dXNlcjpwYXNz'') pool_of_two)))
     = posted (wc_host pool_of_two)
         @ [(0, authorization_push (JStr ''dXNlcjpwYXNz''), JUndefined),
            (1, authorization_push (JStr ''dXNlcjpwYXNz''), JUndefined)]
   \<and> messageListener (JEvent True (authorization_push auth) ports') this
       = executeMessageListeners (JEvent True (authorization_push auth) ports') this
   \<and> httpAuth (state_of (messageListener (JEvent True (authorization_push auth) ports') this)) = httpAuth this
   \<and> messageListener (JEvent True (JObj [(''setHttpAuth'', JStr ''dXNlcjpwYXNz'')]) []) this
       = Return () (this\<lparr>httpAuth := JStr ''dXNlcjpwYXNz''\<rparr>)
   \<and> messageListener
         (JEvent True (JObj [(''setHttpAccessToken'', JStr ''token''), (''thread'', JStr MASTER_THREAD)]) []) this
       = Return () (this\<lparr>httpAccessToken := JStr ''token''\<rparr>)"
proof (intro conjI)
  show "posted (wc_host (state_of (wc_setHttpAuthorization (JStr ''dXNlcjpwYXNz'') pool_of_two)))
     = posted (wc_host pool_of_two)
         @ [(0, authorization_push (JStr ''dXNlcjpwYXNz''), JUndefined),
            (1, authorization_push (JStr ''dXNlcjpwYXNz''), JUndefined)]"
    by (simp add: pool_of_two_def WorkerCluster_new_def fresh_host_def spawn.simps RemoteWorker_new_def
        getUniqueId_def unique_id_text_def decimal_digit digit_char_def rw_postMessage_def initializeWorker_def
        addMessageListener_def registerRemoteThread_def Object_keys_def rw_registerRemoteThread_def
        obj_in_def Let_def MASTER_THREAD_def Error_def wc_setHttpAuthorization_def wc_broadcast_def
        mixin_sendMessageToRemote_def stamp_thread_def json_clone_def wc_post_def authorization_push_def)
  have fall: "messageListener (JEvent True (authorization_push auth) ports') this
       = executeMessageListeners (JEvent True (authorization_push auth) ports') this"
    by (subst messageListener.simps)
       (simp add: authorization_push_def is_command_def MASTER_THREAD_def)
  show "messageListener (JEvent True (authorization_push auth) ports') this
       = executeMessageListeners (JEvent True (authorization_push auth) ports') this"
    by (rule fall)
  show "httpAuth (state_of (messageListener (JEvent True (authorization_push auth) ports') this)) = httpAuth this"
    by (simp add: fall executeMessageListeners_def call_listeners_keeps_http)
  show "messageListener (JEvent True (JObj [(''setHttpAuth'', JStr ''dXNlcjpwYXNz'')]) []) this
       = Return () (this\<lparr>httpAuth := JStr ''dXNlcjpwYXNz''\<rparr>)"
    by (subst messageListener.simps) (simp add: is_command_def setHttpAuthorization_def)
  show "messageListener
         (JEvent True (JObj [(''setHttpAccessToken'', JStr ''token''), (''thread'', JStr MASTER_THREAD)]) []) this
       = Return () (this\<lparr>httpAccessToken := JStr ''token''\<rparr>)"
    by (subst messageListener.simps) (simp add: is_command_def setHttpAccessToken_def MASTER_THREAD_def)
qed

section \<open>The life of a pending callback\<close>





section \<open>Command results\<close>



section \<open>The controller as a target\<close>

text \<open>
  Claim C9, amended. \<^verbatim>\<open>sendMessageToRemote(MASTER_THREAD, payload)\<close> stamps the payload
  with the sender's id and posts it to the spawning context; the sibling map plays no
  part (this is the way the result of a command goes back to the controller). But
  \<^verbatim>\<open>sendCommand(name, args, MASTER_THREAD)\<close> checks the target against the sibling map
  first: the controller's id is not a key of that map, so the promise is rejected with
  \<^verbatim>\<open>Invalid Thread\<close>, and nothing is posted or executed.
\<close>

theorem master_target:
  "sendMessageToRemote (JStr MASTER_THREAD) (JObj kvs) transferable this
     = Return True
         (this\<lparr>outbox := outbox this @
            [(ToMaster,
              (if \<not> truthy transferable \<or> strict_eq (js_length transferable) (JNum 0)
               then json_value (JObj (obj_set ''thread'' (this_id this) kvs))
               else JObj (obj_set ''thread'' (this_id this) kvs)),
              transferable)]\<rparr>)
   \<and> (obj_in name (commands this) \<and> \<not> obj_in MASTER_THREAD (remotes this) \<longrightarrow>
        sendCommand name args (JStr MASTER_THREAD) this
          = Return (length (promises this))
              (promise_reject (length (promises this)) (error_object (Error ''Invalid Thread''))
                 (registered this))
        \<and> promises (state_of (sendCommand name args (JStr MASTER_THREAD) this)) ! length (promises this)
            = Rejected (error_object (Error ''Invalid Thread''))
        \<and> outbox (state_of (sendCommand name args (JStr MASTER_THREAD) this)) = outbox this
        \<and> jobs (state_of (sendCommand name args (JStr MASTER_THREAD) this)) = jobs this)"
proof (intro conjI impI)
  show "sendMessageToRemote (JStr MASTER_THREAD) (JObj kvs) transferable this
     = Return True
         (this\<lparr>outbox := outbox this @
            [(ToMaster,
              (if \<not> truthy transferable \<or> strict_eq (js_length transferable) (JNum 0)
               then json_value (JObj (obj_set ''thread'' (this_id this) kvs))
               else JObj (obj_set ''thread'' (this_id this) kvs)),
              transferable)]\<rparr>)"
    by (subst sendMessageToRemote.simps)
       (simp add: stamp_thread_def isMasterThread_def sendMessageToMaster_def json_clone_def
          del: json_value.simps)
next
  assume a: "obj_in name (commands this) \<and> \<not> obj_in MASTER_THREAD (remotes this)"
  then have eq: "sendCommand name args (JStr MASTER_THREAD) this
          = Return (length (promises this))
              (promise_reject (length (promises this)) (error_object (Error ''Invalid Thread''))
                 (registered this))"
    by (simp add: sendCommand_unfold MASTER_THREAD_def)
  show "sendCommand name args (JStr MASTER_THREAD) this
          = Return (length (promises this))
              (promise_reject (length (promises this)) (error_object (Error ''Invalid Thread''))
                 (registered this))"
    by (rule eq)
  show "promises (state_of (sendCommand name args (JStr MASTER_THREAD) this)) ! length (promises this)
            = Rejected (error_object (Error ''Invalid Thread''))"
    by (simp add: eq promise_reject_def settle_def registered_simps)
  show "outbox (state_of (sendCommand name args (JStr MASTER_THREAD) this)) = outbox this"
    by (simp add: eq promise_reject_keeps registered_simps)
  show "jobs (state_of (sendCommand name args (JStr MASTER_THREAD) this)) = jobs this"
    by (simp add: eq promise_reject_keeps registered_simps)
qed

theorem master_target_witness:
  "sendMessageToRemote (JStr MASTER_THREAD) (JObj [(''data'', JNum 42), (''returnId'', JStr ''7.x'')]) JUndefined worker_a
     = Return True (worker_a\<lparr>outbox :=
         [(ToMaster, JObj [(''data'', JNum 42), (''returnId'', JStr ''7.x''), (''thread'', JStr ''a'')], JUndefined)]\<rparr>)
   \<and> promises (state_of (sendCommand ''echo'' (JArr [JNum 42]) (JStr MASTER_THREAD) worker_a))
       = [Rejected (JError ''Error'' ''Invalid Thread'')]"
proof
  show "sendMessageToRemote (JStr MASTER_THREAD) (JObj [(''data'', JNum 42), (''returnId'', JStr ''7.x'')]) JUndefined worker_a
     = Return True (worker_a\<lparr>outbox :=
         [(ToMaster, JObj [(''data'', JNum 42), (''returnId'', JStr ''7.x''), (''thread'', JStr ''a'')], JUndefined)]\<rparr>)"
    using master_target [THEN conjunct1, of "[(''data'', JNum 42), (''returnId'', JStr ''7.x'')]" JUndefined worker_a]
    by (simp add: worker_a_eq)
  have pre: "obj_in ''echo'' (commands worker_a) \<and> \<not> obj_in MASTER_THREAD (remotes worker_a)"
    by (simp add: worker_a_eq obj_in_def MASTER_THREAD_def)
  have "promises (state_of (sendCommand ''echo'' (JArr [JNum 42]) (JStr MASTER_THREAD) worker_a))
          ! length (promises worker_a) = Rejected (error_object (Error ''Invalid Thread''))"
    using mp [OF conjunct2 [OF master_target [of _ _ worker_a "''echo''" "JArr [JNum 42]"]] pre]
    by blast
  moreover have "length (promises (state_of (sendCommand ''echo'' (JArr [JNum 42]) (JStr MASTER_THREAD) worker_a))) = 1"
    using mp [OF conjunct2 [OF master_target [of _ _ worker_a "''echo''" "JArr [JNum 42]"]] pre]
    by (simp add: promise_reject_def settle_def registered_simps worker_a_eq)
  ultimately show "promises (state_of (sendCommand ''echo'' (JArr [JNum 42]) (JStr MASTER_THREAD) worker_a))
       = [Rejected (JError ''Error'' ''Invalid Thread'')]"
    by (cases "promises (state_of (sendCommand ''echo'' (JArr [JNum 42]) (JStr MASTER_THREAD) worker_a))")
       (simp_all add: worker_a_eq error_object_def Error_def)
qed


text \<open>
  Claim C9 as stated fails: worker \<open>a\<close>, with \<open>echo\<close> registered and one sibling, calls
  \<^verbatim>\<open>sendCommand('echo', [42], MASTER_THREAD)\<close>; the promise is rejected and the outbox stays
  empty.
\<close>

theorem master_target_counterexample:
  "sendCommand ''echo'' (JArr [JNum 42]) (JStr MASTER_THREAD) worker_a
     = Return 0 (worker_a\<lparr>callbacks := [(''1.t'', 0)],
                   promises := [Rejected (JError ''Error'' ''Invalid Thread'')],
                   tp_realm := \<lparr>uniqueId = 1, entropy = \<lambda>n. ''t''\<rparr>\<rparr>)
   \<and> outbox (state_of (sendCommand ''echo'' (JArr [JNum 42]) (JStr MASTER_THREAD) worker_a)) = []"
  by (simp add: worker_a_eq sendCommand_def getUniqueId_def unique_id_text_def decimal_1
       registerCallbackId_def obj_in_def hasRemotes_def MASTER_THREAD_def Let_def promise_reject_def
       settle_def error_object_def Error_def)

section \<open>Spawning\<close>

lemma digit_cases:
  assumes "d < (10::nat)"
  obtains "d = 0" | "d = 1" | "d = 2" | "d = 3" | "d = 4" | "d = 5" | "d = 6" | "d = 7" | "d = 8" | "d = 9"
proof -
  from assms have "d = 0 \<or> d = 1 \<or> d = 2 \<or> d = 3 \<or> d = 4 \<or> d = 5 \<or> d = 6 \<or> d = 7 \<or> d = 8 \<or> d = 9"
    by arith
  with that show thesis by blast
qed

lemma digit_char_code: "d < 10 \<Longrightarrow> of_char (digit_char d) = 48 + d"
  by (erule digit_cases) (simp_all add: digit_char_def)

lemma digit_char_not_dot: "d < 10 \<Longrightarrow> digit_char d \<noteq> CHR ''.''"
  by (erule digit_cases) (simp_all add: digit_char_def)

lemma digits_value_decimal: "digits_value (decimal n) = n"
proof (induction n rule: decimal.induct)
  case (1 n)
  show ?case
  proof (cases "n div 10 = 0")
    case True
    then have "n < 10" by simp
    then show ?thesis
      by (subst decimal.simps) (simp add: digits_value_def digit_char_code)
  next
    case False
    have d: "n mod 10 < 10" by simp
    from False "1.IH" have ih: "digits_value (decimal (n div 10)) = n div 10"
      by simp
    have "digits_value (decimal n) = 10 * digits_value (decimal (n div 10)) + n mod 10"
      using False by (subst decimal.simps) (simp add: digits_value_def digit_char_code [OF d] Let_def)
    then show ?thesis by (simp add: ih)
  qed
qed

lemma decimal_no_dot: "CHR ''.'' \<notin> set (decimal n)"
proof (induction n rule: decimal.induct)
  case (1 n)
  have d: "n mod 10 < 10" by simp
  show ?case
  proof (cases "n div 10 = 0")
    case True
    then show ?thesis
      using digit_char_not_dot [OF d] by (subst decimal.simps) (auto simp: Let_def)
  next
    case False
    with "1.IH" have "CHR ''.'' \<notin> set (decimal (n div 10))" by simp
    then show ?thesis
      using False digit_char_not_dot [OF d] by (subst decimal.simps) (auto simp: Let_def)
  qed
qed

lemma unique_id_text_inj:
  assumes "unique_id_text ent m = unique_id_text ent n"
  shows "m = n"
proof -
  have "takeWhile (\<lambda>c. c \<noteq> CHR ''.'') (unique_id_text ent k) = decimal k" for k
  proof -
    have "\<forall>c \<in> set (decimal k). c \<noteq> CHR ''.''"
      using decimal_no_dot [of k] by blast
    then show ?thesis
      by (simp add: unique_id_text_def takeWhile_append2)
  qed
  with assms have "decimal m = decimal n" by metis
  then have "digits_value (decimal m) = digits_value (decimal n)" by simp
  then show ?thesis by (simp add: digits_value_decimal)
qed


lemma getUniqueId_fresh:
  "fst (getUniqueId rl) \<notin> minted rl"
  "minted (snd (getUniqueId rl)) = insert (fst (getUniqueId rl)) (minted rl)"
proof -
  show "fst (getUniqueId rl) \<notin> minted rl"
    by (auto simp: getUniqueId_def minted_def Let_def dest!: unique_id_text_inj)
  have "{1..Suc (uniqueId rl)} = insert (Suc (uniqueId rl)) {1..uniqueId rl}"
    by auto
  then show "minted (snd (getUniqueId rl)) = insert (fst (getUniqueId rl)) (minted rl)"
    by (simp add: getUniqueId_def minted_def Let_def)
qed

lemma rw_registerRemoteThread_fresh:
  assumes "rw_id other \<notin> set (Object_keys (threads this))"
  shows "\<exists>this1 h1. rw_registerRemoteThread this other h = Return this1 h1
           \<and> rw_id this1 = rw_id this \<and> worker this1 = worker this
           \<and> Object_keys (threads this1) = Object_keys (threads this) @ [rw_id other]
           \<and> host_realm h1 = host_realm h \<and> workers_spawned h1 = workers_spawned h"
  using assms
  by (simp add: rw_registerRemoteThread_def obj_in_keys keys_obj_set rw_postMessage_def Let_def
           split: option.split)


lemma wired_refl: "wired new_id this this"
  by (auto simp: wired_def)

lemma wired_trans:
  assumes "wired new_id this this1" and "wired new_id this1 this2"
  shows "wired new_id this this2"
  unfolding wired_def
proof (intro conjI)
  show "\<forall>(k, r') \<in> set (remotes this2).
           \<exists>r. (k, r) \<in> set (remotes this) \<and> rw_id r' = rw_id r
               \<and> set (Object_keys (threads r')) \<subseteq> insert new_id (set (Object_keys (threads r)))"
  proof (clarify)
    fix k r2
    assume "(k, r2) \<in> set (remotes this2)"
    with assms(2) obtain r1 where r1: "(k, r1) \<in> set (remotes this1)" "rw_id r2 = rw_id r1"
      "set (Object_keys (threads r2)) \<subseteq> insert new_id (set (Object_keys (threads r1)))"
      unfolding wired_def by fastforce
    with assms(1) obtain r where r: "(k, r) \<in> set (remotes this)" "rw_id r1 = rw_id r"
      "set (Object_keys (threads r1)) \<subseteq> insert new_id (set (Object_keys (threads r)))"
      unfolding wired_def by fastforce
    from r1 r show "\<exists>r. (k, r) \<in> set (remotes this) \<and> rw_id r2 = rw_id r
               \<and> set (Object_keys (threads r2)) \<subseteq> insert new_id (set (Object_keys (threads r)))"
      by (intro exI [of _ r]) auto
  qed
qed (use assms in \<open>simp_all add: wired_def\<close>)

lemma wire_one:
  assumes r: "map_of (remotes this) k = Some r"
    and r1: "rw_id r1 = rw_id r" "set (Object_keys (threads r1)) \<subseteq> insert new_id (set (Object_keys (threads r)))"
    and h: "host_realm h2 = host_realm (wc_host this)" "workers_spawned h2 = workers_spawned (wc_host this)"
  shows "wired new_id this (this\<lparr>remotes := obj_set k r1 (remotes this), wc_host := h2\<rparr>)"
proof -
  from r have "(k, r) \<in> set (remotes this)" by (rule map_of_SomeD)
  then have "k \<in> set (Object_keys (remotes this))"
    by (force simp: Object_keys_def)
  then have keys: "Object_keys (obj_set k r1 (remotes this)) = Object_keys (remotes this)"
    by (simp add: keys_obj_set)
  have "\<exists>r0. (k', r0) \<in> set (remotes this) \<and> rw_id r' = rw_id r0
               \<and> set (Object_keys (threads r')) \<subseteq> insert new_id (set (Object_keys (threads r0)))"
    if "(k', r') \<in> set (obj_set k r1 (remotes this))" for k' r'
    using in_obj_set [OF that] r1 \<open>(k, r) \<in> set (remotes this)\<close> by auto
  then show ?thesis
    using keys h by (auto simp: wired_def)
qed

lemma wire_remotes_ok:
  assumes "distinct ks"
    and "\<forall>k \<in> set ks. \<exists>r. map_of (remotes this) k = Some r \<and> rw_id r = k
                           \<and> rw_id new \<notin> set (Object_keys (threads r))"
    and "\<forall>k \<in> set ks. k \<notin> set (Object_keys (threads new))"
  shows "\<exists>new' this'. wire_remotes ks new this = Return new' this'
           \<and> rw_id new' = rw_id new
           \<and> set (Object_keys (threads new')) \<subseteq> set (Object_keys (threads new)) \<union> set ks
           \<and> wired (rw_id new) this this'"
  using assms
proof (induction ks arbitrary: new this)
  case Nil
  then show ?case by (simp add: wired_refl)
next
  case (Cons k ks)
  from Cons.prems(2) obtain r where r: "map_of (remotes this) k = Some r" "rw_id r = k"
    "rw_id new \<notin> set (Object_keys (threads r))"
    by auto
  from rw_registerRemoteThread_fresh [OF r(3), of "wc_host this"]
  obtain r1 h1 where s1: "rw_registerRemoteThread r new (wc_host this) = Return r1 h1"
    "rw_id r1 = rw_id r" "Object_keys (threads r1) = Object_keys (threads r) @ [rw_id new]"
    "host_realm h1 = host_realm (wc_host this)" "workers_spawned h1 = workers_spawned (wc_host this)"
    by blast
  from Cons.prems(3) have "rw_id r1 \<notin> set (Object_keys (threads new))"
    by (simp add: s1(2) r(2))
  from rw_registerRemoteThread_fresh [OF this, of h1]
  obtain new1 h2 where s2: "rw_registerRemoteThread new r1 h1 = Return new1 h2"
    "rw_id new1 = rw_id new" "Object_keys (threads new1) = Object_keys (threads new) @ [rw_id r1]"
    "host_realm h2 = host_realm h1" "workers_spawned h2 = workers_spawned h1"
    by blast
  let ?this1 = "this\<lparr>remotes := obj_set k r1 (remotes this), wc_host := h2\<rparr>"
  have step: "wire_remotes (k # ks) new this = wire_remotes ks new1 ?this1"
    by (simp add: r(1) s1(1) s2(1))
  have w1: "wired (rw_id new) this ?this1"
    using r(1) by (rule wire_one) (simp_all add: s1 s2)
  from Cons.prems(1) have d: "distinct ks" and k: "k \<notin> set ks" by simp_all
  have p2: "\<forall>k' \<in> set ks. \<exists>r. map_of (remotes ?this1) k' = Some r \<and> rw_id r = k'
                           \<and> rw_id new1 \<notin> set (Object_keys (threads r))"
    using Cons.prems(2) k by (auto simp: map_of_obj_set s2(2))
  have p3: "\<forall>k' \<in> set ks. k' \<notin> set (Object_keys (threads new1))"
    using Cons.prems(3) k by (auto simp: s2(3) s1(2) r(2))
  from Cons.IH [OF d p2 p3]
  obtain new' this' where ih: "wire_remotes ks new1 ?this1 = Return new' this'"
    "rw_id new' = rw_id new1"
    "set (Object_keys (threads new')) \<subseteq> set (Object_keys (threads new1)) \<union> set ks"
    "wired (rw_id new1) ?this1 this'"
    by blast
  have "wired (rw_id new) this this'"
    using w1 ih(4) by (simp add: s2(2) wired_trans)
  moreover have "set (Object_keys (threads new')) \<subseteq> set (Object_keys (threads new)) \<union> set (k # ks)"
    using ih(3) by (auto simp: s2(3) s1(2) r(2))
  ultimately show ?case
    unfolding step by (simp add: ih(1) ih(2) s2(2))
qed


lemma spawn_unfold:
  "spawn numWorkers this =
     (case spawn_one this of
        Throw e this2 \<Rightarrow> Throw e this2
      | Return _ this2 \<Rightarrow> if numWorkers - 1 > 0 then spawn (numWorkers - 1) this2 else Return () this2)"
  by (subst spawn.simps) (simp add: spawn_one_def split: completion.split prod.split)

lemma RemoteWorker_new_ok:
  assumes "wsrc \<noteq> NotAWorker"
  shows "\<exists>new h'. RemoteWorker_new wsrc h = Return new h'
           \<and> rw_id new = fst (getUniqueId (host_realm h)) \<and> threads new = []
           \<and> host_realm h' = snd (getUniqueId (host_realm h))
           \<and> workers_spawned h' = workers_spawned h + 1"
  using assms
  by (simp add: RemoteWorker_new_def Let_def split_def rw_postMessage_def)

lemma initializeWorker_ok:
  "\<exists>worker1 this1. initializeWorker new this = (worker1, this1)
     \<and> rw_id worker1 = rw_id new \<and> threads worker1 = threads new
     \<and> remotes this1 = remotes this \<and> which this1 = which this
     \<and> host_realm (wc_host this1) = snd (getUniqueId (host_realm (wc_host this)))
     \<and> workers_spawned (wc_host this1) = workers_spawned (wc_host this)"
  by (simp add: initializeWorker_def addMessageListener_def Let_def split_def rw_postMessage_def
           split: option.split)

lemma registerRemoteThread_ok:
  assumes ok: "distinct (Object_keys (remotes this))"
      "\<forall>(key, remote) \<in> set (remotes this). rw_id remote = key \<and> key \<in> M
           \<and> set (Object_keys (threads remote)) \<subseteq> M"
    and new: "rw_id new \<notin> M" "threads new = []"
  shows "\<exists>this'. registerRemoteThread new this = Return () this'
           \<and> Object_keys (remotes this') = Object_keys (remotes this) @ [rw_id new]
           \<and> (\<forall>(key, remote) \<in> set (remotes this'). rw_id remote = key \<and> key \<in> insert (rw_id new) M
                 \<and> set (Object_keys (threads remote)) \<subseteq> insert (rw_id new) M)
           \<and> host_realm (wc_host this') = host_realm (wc_host this)
           \<and> workers_spawned (wc_host this') = workers_spawned (wc_host this)
           \<and> which this' = which this"
proof -
  let ?ks = "Object_keys (remotes this)"
  have entry: "map_of (remotes this) k = Some r \<longleftrightarrow> (k, r) \<in> set (remotes this)" for k r
    using ok(1) by (simp add: Object_keys_def)
  have p2: "\<forall>k \<in> set ?ks. \<exists>r. map_of (remotes this) k = Some r \<and> rw_id r = k
                           \<and> rw_id new \<notin> set (Object_keys (threads r))"
  proof
    fix k assume "k \<in> set ?ks"
    then obtain r where r: "(k, r) \<in> set (remotes this)"
      by (auto simp: Object_keys_def)
    with ok(2) new(1) have "rw_id r = k \<and> rw_id new \<notin> set (Object_keys (threads r))"
      by auto
    with r show "\<exists>r. map_of (remotes this) k = Some r \<and> rw_id r = k
                           \<and> rw_id new \<notin> set (Object_keys (threads r))"
      by (auto simp: entry)
  qed
  have p3: "\<forall>k \<in> set ?ks. k \<notin> set (Object_keys (threads new))"
    by (simp add: new(2) Object_keys_def)
  from wire_remotes_ok [OF ok(1) p2 p3]
  obtain new' this1 where w: "wire_remotes ?ks new this = Return new' this1"
    "rw_id new' = rw_id new"
    "set (Object_keys (threads new')) \<subseteq> set (Object_keys (threads new)) \<union> set ?ks"
    "wired (rw_id new) this this1"
    by blast
  let ?this2 = "this1\<lparr>remotes := obj_set (rw_id new') new' (remotes this1)\<rparr>"
  have keys1: "Object_keys (remotes this1) = ?ks"
    using w(4) by (simp add: wired_def)
  have keysM: "set ?ks \<subseteq> M"
    using ok(2) by (auto simp: Object_keys_def)
  then have fresh: "rw_id new' \<notin> set (Object_keys (remotes this1))"
    using new(1) by (auto simp: keys1 w(2))
  have result: "registerRemoteThread new this = Return () ?this2"
    by (simp add: registerRemoteThread_def w(1))
  have appended: "remotes ?this2 = remotes this1 @ [(rw_id new, new')]"
    using obj_set_fresh [OF fresh] by (simp add: w(2))
  have "rw_id remote = key \<and> key \<in> insert (rw_id new) M
          \<and> set (Object_keys (threads remote)) \<subseteq> insert (rw_id new) M"
    if "(key, remote) \<in> set (remotes ?this2)" for key remote
  proof (cases "(key, remote) = (rw_id new, new')")
    case True
    then show ?thesis
      using w(2) w(3) keysM by (auto simp: new(2) Object_keys_def)
  next
    case False
    with that have "(key, remote) \<in> set (remotes this1)"
      by (auto simp: appended)
    with w(4) obtain r where r: "(key, r) \<in> set (remotes this)" "rw_id remote = rw_id r"
      "set (Object_keys (threads remote)) \<subseteq> insert (rw_id new) (set (Object_keys (threads r)))"
      unfolding wired_def by fastforce
    from ok(2) r(1) have "rw_id r = key \<and> key \<in> M \<and> set (Object_keys (threads r)) \<subseteq> M"
      by fastforce
    with r(2) r(3) show ?thesis by auto
  qed
  moreover have "Object_keys (remotes ?this2) = ?ks @ [rw_id new]"
    by (simp add: appended) (simp add: Object_keys_def keys1 [unfolded Object_keys_def])
  ultimately show ?thesis
    using w(4) by (auto simp: result wired_def simp del: obj_set.simps)
qed


lemma spawn_one_ok:
  assumes src: "which this \<noteq> NotAWorker" and ok: "cluster_ok this"
  shows "\<exists>this'. spawn_one this = Return () this' \<and> cluster_ok this' \<and> which this' = which this
           \<and> Object_keys (remotes this') = Object_keys (remotes this) @ [fst (getUniqueId (host_realm (wc_host this)))]
           \<and> workers_spawned (wc_host this') = workers_spawned (wc_host this) + 1"
proof -
  let ?rl = "host_realm (wc_host this)"
  let ?M = "minted ?rl"
  let ?id = "fst (getUniqueId ?rl)"
  from RemoteWorker_new_ok [OF src, of "wc_host this"]
  obtain new h' where n: "RemoteWorker_new (which this) (wc_host this) = Return new h'"
    "rw_id new = ?id" "threads new = []" "host_realm h' = snd (getUniqueId ?rl)"
    "workers_spawned h' = workers_spawned (wc_host this) + 1"
    by blast
  from initializeWorker_ok [of new "this\<lparr>wc_host := h'\<rparr>"]
  obtain worker1 this1 where i: "initializeWorker new (this\<lparr>wc_host := h'\<rparr>) = (worker1, this1)"
    "rw_id worker1 = rw_id new" "threads worker1 = threads new" "remotes this1 = remotes this"
    "which this1 = which this"
    "host_realm (wc_host this1) = snd (getUniqueId (snd (getUniqueId ?rl)))"
    "workers_spawned (wc_host this1) = workers_spawned (wc_host this) + 1"
    by (auto simp: n)
  have d: "distinct (Object_keys (remotes this1))"
    and e: "\<forall>(key, remote) \<in> set (remotes this1). rw_id remote = key \<and> key \<in> ?M
           \<and> set (Object_keys (threads remote)) \<subseteq> ?M"
    using ok by (simp_all add: cluster_ok_def i(4))
  have f: "rw_id worker1 \<notin> ?M" and t: "threads worker1 = []"
    by (simp_all add: i n getUniqueId_fresh)
  from registerRemoteThread_ok [OF d e f t]
  obtain this' where r: "registerRemoteThread worker1 this1 = Return () this'"
    "Object_keys (remotes this') = Object_keys (remotes this1) @ [rw_id worker1]"
    "\<forall>(key, remote) \<in> set (remotes this'). rw_id remote = key \<and> key \<in> insert (rw_id worker1) ?M
                 \<and> set (Object_keys (threads remote)) \<subseteq> insert (rw_id worker1) ?M"
    "host_realm (wc_host this') = host_realm (wc_host this1)"
    "workers_spawned (wc_host this') = workers_spawned (wc_host this1)"
    "which this' = which this1"
    by blast
  have result: "spawn_one this = Return () this'"
    by (simp add: spawn_one_def n(1) i(1) r(1))
  have grown: "insert (rw_id worker1) ?M \<subseteq> minted (host_realm (wc_host this'))"
    by (auto simp: r(4) i(6) i(2) n(2) getUniqueId_fresh(2))
  have keys_old: "set (Object_keys (remotes this)) \<subseteq> ?M"
    using e by (auto simp: Object_keys_def i(4))
  have "distinct (Object_keys (remotes this'))"
    using d f keys_old by (auto simp: r(2) i(4))
  moreover have "\<forall>(key, remote) \<in> set (remotes this'). rw_id remote = key
           \<and> key \<in> minted (host_realm (wc_host this'))
           \<and> set (Object_keys (threads remote)) \<subseteq> minted (host_realm (wc_host this'))"
    using r(3) grown by fastforce
  ultimately have "cluster_ok this'"
    by (simp add: cluster_ok_def)
  then show ?thesis
    by (simp add: result r i n)
qed

lemma spawn_ok:
  assumes "which this \<noteq> NotAWorker" and "cluster_ok this"
  shows "\<exists>this'. spawn n this = Return () this' \<and> cluster_ok this' \<and> which this' = which this
           \<and> length (remotes this') = length (remotes this) + nat (max 1 n)
           \<and> take (length (remotes this)) (Object_keys (remotes this')) = Object_keys (remotes this)
           \<and> workers_spawned (wc_host this') = workers_spawned (wc_host this) + nat (max 1 n)"
  using assms
proof (induction n this rule: spawn.induct)
  case (1 n this)
  from spawn_one_ok [OF "1.prems"]
  obtain this1 where s: "spawn_one this = Return () this1" "cluster_ok this1" "which this1 = which this"
    "Object_keys (remotes this1) = Object_keys (remotes this) @ [fst (getUniqueId (host_realm (wc_host this)))]"
    "workers_spawned (wc_host this1) = workers_spawned (wc_host this) + 1"
    by blast
  have len1: "length (remotes this1) = length (remotes this) + 1"
    using arg_cong [OF s(4), of length] by (simp add: Object_keys_def)
  show ?case
  proof (cases "n - 1 > 0")
    case False
    then have "nat (max 1 n) = 1" by simp
    then show ?thesis
      using False s len1 by (simp add: spawn_unfold [of n this] Object_keys_def)
  next
    case True
    obtain new h where a: "RemoteWorker_new (which this) (wc_host this) = Return new h"
      using RemoteWorker_new_ok [OF "1.prems"(1), of "wc_host this"] by blast
    obtain worker1 this0 where b: "initializeWorker new (this\<lparr>wc_host := h\<rparr>) = (worker1, this0)"
      by (cases "initializeWorker new (this\<lparr>wc_host := h\<rparr>)")
    have c: "registerRemoteThread worker1 this0 = Return () this1"
      using s(1) by (simp add: spawn_one_def a b)
    from "1.IH" [OF a b [symmetric] c True] s(2) s(3) "1.prems"(1)
    obtain this' where ih: "spawn (n - 1) this1 = Return () this'" "cluster_ok this'" "which this' = which this1"
      "length (remotes this') = length (remotes this1) + nat (max 1 (n - 1))"
      "take (length (remotes this1)) (Object_keys (remotes this')) = Object_keys (remotes this1)"
      "workers_spawned (wc_host this') = workers_spawned (wc_host this1) + nat (max 1 (n - 1))"
      by auto
    from True have m: "nat (max 1 n) = 1 + nat (max 1 (n - 1))" by simp
    have "take (length (remotes this)) (Object_keys (remotes this')) = Object_keys (remotes this)"
    proof -
      have "take (length (remotes this)) (take (length (remotes this1)) (Object_keys (remotes this')))
              = take (length (remotes this)) (Object_keys (remotes this1))"
        by (simp only: ih(5))
      moreover have "length (remotes this) = length (Object_keys (remotes this))"
        by (simp add: Object_keys_def)
      ultimately show ?thesis
        by (simp add: len1 s(4) min_def)
    qed
    then show ?thesis
      using True ih s len1 m by (simp add: spawn_unfold [of n this])
  qed
qed


text \<open>
  Claim C10. For every integer \<open>n\<close>, \<^verbatim>\<open>spawn(n)\<close> on a well-formed pool whose worker source
  is a script or a class returns, and has spawned and registered \<open>max 1 n\<close> new workers:
  the sibling map keeps its entries, in their order, and has \<open>max 1 n\<close> more, and the host
  has constructed \<open>max 1 n\<close> more workers. The pool is well formed again. The constructor
  with the worker count \<open>n\<close> yields a well-formed pool of \<open>max 1 n\<close> workers; so \<open>n = 0\<close>
  gives one worker, never none.
\<close>

theorem spawn_registers_max_1_n:
  "(which this \<noteq> NotAWorker \<and> cluster_ok this \<longrightarrow>
      (\<exists>this'. spawn n this = Return () this' \<and> cluster_ok this'
         \<and> length (remotes this') = length (remotes this) + nat (max 1 n)
         \<and> take (length (remotes this)) (Object_keys (remotes this')) = Object_keys (remotes this)
         \<and> workers_spawned (wc_host this') = workers_spawned (wc_host this) + nat (max 1 n)))
   \<and> (wsrc \<noteq> NotAWorker \<longrightarrow>
      (\<exists>this'. WorkerCluster_new wsrc n h = Return () this' \<and> cluster_ok this'
         \<and> length (remotes this') = nat (max 1 n)
         \<and> workers_spawned (wc_host this') = workers_spawned h + nat (max 1 n)))"
proof (intro conjI impI)
  assume "which this \<noteq> NotAWorker \<and> cluster_ok this"
  then show "\<exists>this'. spawn n this = Return () this' \<and> cluster_ok this'
         \<and> length (remotes this') = length (remotes this) + nat (max 1 n)
         \<and> take (length (remotes this)) (Object_keys (remotes this')) = Object_keys (remotes this)
         \<and> workers_spawned (wc_host this') = workers_spawned (wc_host this) + nat (max 1 n)"
    using spawn_ok [of this n] by blast
next
  assume src: "wsrc \<noteq> NotAWorker"
  let ?init = "\<lparr>listeners = [], invoked = [],
        this_id = JStr MASTER_THREAD, remotes = [], callbacks = [], remoteKey = 0, promises = [],
        httpAuthorization = JNull, wc_httpAccessToken = JNull, which = wsrc, wc_host = h\<rparr>"
  have "which ?init \<noteq> NotAWorker" and "cluster_ok ?init"
    using src by (simp_all add: cluster_ok_def Object_keys_def)
  from spawn_ok [OF this, of n]
  show "\<exists>this'. WorkerCluster_new wsrc n h = Return () this' \<and> cluster_ok this'
         \<and> length (remotes this') = nat (max 1 n)
         \<and> workers_spawned (wc_host this') = workers_spawned h + nat (max 1 n)"
    by (auto simp: WorkerCluster_new_def)
qed

theorem spawn_registers_max_1_n_witness:
  "returns (WorkerCluster_new (Script ''worker.js'') 0 fresh_host)
   \<and> length (remotes (state_of (WorkerCluster_new (Script ''worker.js'') 0 fresh_host))) = 1
   \<and> returns (spawn (- 3) pool_of_two)
   \<and> length (remotes (state_of (spawn (- 3) pool_of_two))) = 3
   \<and> returns (spawn 3 pool_of_two)
   \<and> length (remotes (state_of (spawn 3 pool_of_two))) = 5"
proof -
  note count = spawn_registers_max_1_n
  have src: "Script ''worker.js'' \<noteq> NotAWorker"
    by simp
  from mp [OF conjunct2 [OF count [where wsrc = "Script ''worker.js''" and n = 0 and h = fresh_host]] src]
  have zero: "returns (WorkerCluster_new (Script ''worker.js'') 0 fresh_host)
      \<and> length (remotes (state_of (WorkerCluster_new (Script ''worker.js'') 0 fresh_host))) = 1"
    by auto
  from mp [OF conjunct2 [OF count [where wsrc = "Script ''worker.js''" and n = 2 and h = fresh_host]] src]
  have two: "cluster_ok pool_of_two" "length (remotes pool_of_two) = 2"
    by (auto simp: pool_of_two_def)
  have w: "which pool_of_two = Script ''worker.js''"
    by (simp add: pool_of_two_def WorkerCluster_new_def fresh_host_def spawn.simps RemoteWorker_new_def
        getUniqueId_def unique_id_text_def decimal_digit digit_char_def rw_postMessage_def initializeWorker_def
        addMessageListener_def registerRemoteThread_def Object_keys_def rw_registerRemoteThread_def
        obj_in_def Let_def MASTER_THREAD_def Error_def)
  then have pre: "which pool_of_two \<noteq> NotAWorker \<and> cluster_ok pool_of_two"
    using two(1) by simp
  from mp [OF conjunct1 [OF count [where this = pool_of_two and n = "- 3"]] pre]
  have minus: "returns (spawn (- 3) pool_of_two) \<and> length (remotes (state_of (spawn (- 3) pool_of_two))) = 3"
    using two(2) by auto
  from mp [OF conjunct1 [OF count [where this = pool_of_two and n = 3]] pre]
  have three: "returns (spawn 3 pool_of_two) \<and> length (remotes (state_of (spawn 3 pool_of_two))) = 5"
    using two(2) by auto
  from zero minus three show ?thesis by blast
qed

end
